theory Spec2Isabelle
  imports Complex_Main "HOL-Library.Sublist"
begin

section \<open>Resource names\<close>

text \<open>
  Every script names the resources it creates after the wall clock:
  \<^verbatim>\<open>timestamp = datetime.now().strftime('%Y%m%d-%H%M%S')\<close> followed by
  \<^verbatim>\<open>job_name = f'sensor-prediction-training-{timestamp}'\<close> (start_training_job.py, lines 12-13),
  and likewise for the model, the endpoint configuration and the endpoint
  (scripts/deploy_model.py, lines 9-11). \<^verbatim>\<open>datetime.now()\<close> is a naive local date and time;
  it is the record below.
\<close>

record datetime =
  year :: nat
  month :: nat
  day :: nat
  hour :: nat
  minute :: nat
  second :: nat
  microsecond :: nat

definition is_leap :: "nat \<Rightarrow> bool" where
  "is_leap y = (y mod 4 = 0 \<and> (y mod 100 \<noteq> 0 \<or> y mod 400 = 0))"

definition days_in_month :: "nat \<Rightarrow> nat \<Rightarrow> nat" where
  "days_in_month y m =
     (if m = 2 then (if is_leap y then 29 else 28)
      else if m = 4 \<or> m = 6 \<or> m = 9 \<or> m = 11 then 30 else 31)"



fun days_before_month :: "nat \<Rightarrow> nat \<Rightarrow> nat" where
  "days_before_month y 0 = 0"
| "days_before_month y (Suc m) = (if m = 0 then 0 else days_before_month y m + days_in_month y m)"



text \<open>The directives of \<^verbatim>\<open>strftime\<close>: \<^verbatim>\<open>%Y\<close> is four digits, the others two.\<close>

definition digit :: "nat \<Rightarrow> char" where
  "digit d = ''0123456789'' ! d"

definition pad2 :: "nat \<Rightarrow> string" where
  "pad2 n = [digit (n div 10 mod 10), digit (n mod 10)]"

definition pad4 :: "nat \<Rightarrow> string" where
  "pad4 n = [digit (n div 1000 mod 10), digit (n div 100 mod 10),
             digit (n div 10 mod 10), digit (n mod 10)]"

definition strftime_Ymd_HMS :: "datetime \<Rightarrow> string" where
  "strftime_Ymd_HMS t =
     pad4 (year t) @ pad2 (month t) @ pad2 (day t) @ ''-'' @
     pad2 (hour t) @ pad2 (minute t) @ pad2 (second t)"



definition model_name :: "datetime \<Rightarrow> string" where
  "model_name now = ''sensor-prediction-model-'' @ strftime_Ymd_HMS now"

definition endpoint_config_name :: "datetime \<Rightarrow> string" where
  "endpoint_config_name now = ''sensor-prediction-config-'' @ strftime_Ymd_HMS now"

definition endpoint_name :: "datetime \<Rightarrow> string" where
  "endpoint_name now = ''sensor-prediction-endpoint-'' @ strftime_Ymd_HMS now"










section \<open>Control-plane calls and their failures\<close>

text \<open>
  The scripts talk to the managed services through client calls. A call either returns its
  response or raises. The handlers of the source tell two kinds of exception apart: the
  service's own error response, \<^verbatim>\<open>ClientError\<close>, which carries the text that
  \<^verbatim>\<open>str(e)\<close> shows, and every other exception (a connection failure, a waiter that gave
  up, a malformed response).
\<close>

datatype exn = ClientError string | OtherException string

text \<open>The calls that the modelled functions issue, with the names they are issued for.\<close>

datatype api_call =
    CreateTrainingJob string
  | CreateModel string string
  | CreateEndpointConfig string string
  | CreateEndpoint string string
  | WaitEndpointInService string
  | DescribeEndpoint string
  | DeleteEndpoint string
  | DeleteEndpointConfig string
  | DeleteModel string
  | ListObjectsV2 string string
  | ListTrainingJobs
  | ListEndpoints
  | InvokeEndpoint string string

fun is_creation :: "api_call \<Rightarrow> bool" where
  "is_creation (CreateTrainingJob _) = True"
| "is_creation (CreateModel _ _) = True"
| "is_creation (CreateEndpointConfig _ _) = True"
| "is_creation (CreateEndpoint _ _) = True"
| "is_creation _ = False"


text \<open>The fields of a \<^verbatim>\<open>describe_endpoint\<close> response that the scripts read.\<close>

record endpoint_description =
  EndpointStatus :: string
  EndpointArn :: string
  FailureReason :: "string option"

text \<open>
  How a function ends: it returns a value, or it leaves the process through
  \<^verbatim>\<open>sys.exit(code)\<close>.
\<close>

datatype 'a completion = Returns 'a | SysExit nat

section \<open>Deployment: scripts/deploy\_model.py and scripts/deploy\_model\_github.py\<close>

text \<open>
  What the control plane answers to the calls of one deployment. The waiter
  \<^verbatim>\<open>endpoint_in_service\<close> is library code; \<^verbatim>\<open>waiter.wait\<close> is a statement, so all the
  source can see of it is whether it returned (\<open>None\<close>) or raised.
\<close>

record deploy_env =
  create_model :: "string \<Rightarrow> string \<Rightarrow> exn + string"
  create_endpoint_config :: "string \<Rightarrow> string \<Rightarrow> exn + string"
  create_endpoint :: "string \<Rightarrow> string \<Rightarrow> exn + string"
  waiter_wait :: "string \<Rightarrow> exn option"
  describe_endpoint :: "string \<Rightarrow> exn + endpoint_description"

record deploy_result =
  res_model_name :: string
  res_endpoint_config_name :: string
  res_endpoint_name :: string
  res_endpoint_arn :: string

definition model_artifacts :: string where
  "model_artifacts = ''s3://sagemaker-ml-pipeline-models-f5ofrag0/output/sensor-prediction-training-20250805-153525/output/model.tar.gz''"

text \<open>
  \<^verbatim>\<open>deploy_model()\<close> of scripts/deploy\_model.py. The three names come from three readings of
  the clock (lines 9-11). The whole body is one \<^verbatim>\<open>try\<close> whose handler prints and re-raises
  (lines 78-80), so the first call that raises ends the function with that exception. The
  result is the list of calls issued, in order, and the exception or the returned dictionary.
\<close>

definition deploy_model ::
  "deploy_env \<Rightarrow> datetime \<Rightarrow> datetime \<Rightarrow> datetime \<Rightarrow> api_call list \<times> (exn + deploy_result)" where
  "deploy_model env now1 now2 now3 =
     (let mn = model_name now1; cn = endpoint_config_name now2; en = endpoint_name now3 in
      case create_model env mn model_artifacts of
        Inl e \<Rightarrow> ([CreateModel mn model_artifacts], Inl e)
      | Inr model_arn \<Rightarrow>
      (case create_endpoint_config env cn mn of
        Inl e \<Rightarrow> ([CreateModel mn model_artifacts, CreateEndpointConfig cn mn], Inl e)
      | Inr config_arn \<Rightarrow>
      (case create_endpoint env en cn of
        Inl e \<Rightarrow>
          ([CreateModel mn model_artifacts, CreateEndpointConfig cn mn, CreateEndpoint en cn],
           Inl e)
      | Inr endpoint_arn \<Rightarrow>
      (case waiter_wait env en of
        Some e \<Rightarrow>
          ([CreateModel mn model_artifacts, CreateEndpointConfig cn mn, CreateEndpoint en cn,
            WaitEndpointInService en], Inl e)
      | None \<Rightarrow>
      (case describe_endpoint env en of
        Inl e \<Rightarrow>
          ([CreateModel mn model_artifacts, CreateEndpointConfig cn mn, CreateEndpoint en cn,
            WaitEndpointInService en, DescribeEndpoint en], Inl e)
      | Inr d \<Rightarrow>
          ([CreateModel mn model_artifacts, CreateEndpointConfig cn mn, CreateEndpoint en cn,
            WaitEndpointInService en, DescribeEndpoint en],
           Inr \<lparr>res_model_name = mn, res_endpoint_config_name = cn, res_endpoint_name = en,
                res_endpoint_arn = EndpointArn d\<rparr>))))))"

text \<open>
  \<^verbatim>\<open>deploy_model(model_artifacts_s3_path, model_name=None, endpoint_name=None)\<close> of
  scripts/deploy\_model\_github.py. The clock is read once (line 31); a name that is
  \<^verbatim>\<open>None\<close> or empty is generated (lines 33-36). The handler returns \<^verbatim>\<open>None\<close>
  (lines 153-155), and so does the branch for a final status other than
  \<^verbatim>\<open>InService\<close> (lines 147-151).
\<close>

definition or_generated :: "string option \<Rightarrow> string \<Rightarrow> string" where
  "or_generated given generated =
     (case given of None \<Rightarrow> generated | Some n \<Rightarrow> if n = [] then generated else n)"

definition deploy_model_github ::
  "deploy_env \<Rightarrow> string \<Rightarrow> string option \<Rightarrow> string option \<Rightarrow> datetime \<Rightarrow>
     api_call list \<times> string option" where
  "deploy_model_github env model_artifacts_s3_path model_name_arg endpoint_name_arg now =
     (let mn = or_generated model_name_arg (model_name now);
          en = or_generated endpoint_name_arg (endpoint_name now);
          cn = endpoint_config_name now in
      case create_model env mn model_artifacts_s3_path of
        Inl e \<Rightarrow> ([CreateModel mn model_artifacts_s3_path], None)
      | Inr model_arn \<Rightarrow>
      (case create_endpoint_config env cn mn of
        Inl e \<Rightarrow> ([CreateModel mn model_artifacts_s3_path, CreateEndpointConfig cn mn], None)
      | Inr config_arn \<Rightarrow>
      (case create_endpoint env en cn of
        Inl e \<Rightarrow>
          ([CreateModel mn model_artifacts_s3_path, CreateEndpointConfig cn mn,
            CreateEndpoint en cn], None)
      | Inr endpoint_arn \<Rightarrow>
      (case waiter_wait env en of
        Some e \<Rightarrow>
          ([CreateModel mn model_artifacts_s3_path, CreateEndpointConfig cn mn,
            CreateEndpoint en cn, WaitEndpointInService en], None)
      | None \<Rightarrow>
      (case describe_endpoint env en of
        Inl e \<Rightarrow>
          ([CreateModel mn model_artifacts_s3_path, CreateEndpointConfig cn mn,
            CreateEndpoint en cn, WaitEndpointInService en, DescribeEndpoint en], None)
      | Inr d \<Rightarrow>
          ([CreateModel mn model_artifacts_s3_path, CreateEndpointConfig cn mn,
            CreateEndpoint en cn, WaitEndpointInService en, DescribeEndpoint en],
           if EndpointStatus d = ''InService'' then Some en else None))))))"

text \<open>
  The calls that both functions issue, written once: each call is made only when the one
  before it returned.
\<close>

definition call_sequence ::
  "deploy_env \<Rightarrow> string \<Rightarrow> string \<Rightarrow> string \<Rightarrow> string \<Rightarrow> api_call list" where
  "call_sequence env mn art cn en =
     CreateModel mn art #
     (case create_model env mn art of Inl e \<Rightarrow> [] | Inr a \<Rightarrow>
      CreateEndpointConfig cn mn #
      (case create_endpoint_config env cn mn of Inl e \<Rightarrow> [] | Inr a \<Rightarrow>
       CreateEndpoint en cn #
       (case create_endpoint env en cn of Inl e \<Rightarrow> [] | Inr a \<Rightarrow>
        WaitEndpointInService en #
        (case waiter_wait env en of Some e \<Rightarrow> [] | None \<Rightarrow> [DescribeEndpoint en]))))"


section \<open>Polling: monitor\_endpoint.py and deploy.py\<close>

text \<open>
  \<^verbatim>\<open>monitor_endpoint_deployment(endpoint_name, max_wait_minutes=15)\<close>. The loop is
  \<^verbatim>\<open>while True\<close>. Its body describes the endpoint, reads the clock, and leaves through one
  of four \<^verbatim>\<open>return\<close> statements: line 55 (\<^verbatim>\<open>InService\<close>, after a test invocation whose
  outcome is only printed), line 61 (\<^verbatim>\<open>Failed\<close>), line 66 (the elapsed time is above the
  ceiling) and line 73 (the handler of any exception of the body). Otherwise it sleeps 30
  seconds and goes round again.
\<close>

datatype monitor_exit =
    Exit_InService "exn + string"
  | Exit_Failed "string option"
  | Exit_Timeout
  | Exit_Error exn

text \<open>
  One pass through the body at a given response and elapsed time: the exit taken, or
  \<open>None\<close> when the loop goes on. The status is tested before the clock.
\<close>

definition monitor_body ::
  "(exn + endpoint_description) \<Rightarrow> real \<Rightarrow> (exn + string) \<Rightarrow> real \<Rightarrow> monitor_exit option" where
  "monitor_body response elapsed_time test_invocation max_wait_seconds =
     (case response of
        Inl e \<Rightarrow> Some (Exit_Error e)
      | Inr d \<Rightarrow>
          if EndpointStatus d = ''InService'' then Some (Exit_InService test_invocation)
          else if EndpointStatus d = ''Failed'' then Some (Exit_Failed (FailureReason d))
          else if elapsed_time > max_wait_seconds then Some Exit_Timeout
          else None)"

text \<open>
  The loop from its \<open>k\<close>-th pass on. The environment gives the response of the \<open>k\<close>-th
  \<^verbatim>\<open>describe_endpoint\<close> call and the elapsed time read in the \<open>k\<close>-th pass. The result is
  the exit and the number of \<^verbatim>\<open>describe_endpoint\<close> calls made; a loop that never leaves
  has the value \<open>None\<close>.
\<close>

partial_function (option) monitor_loop ::
  "(nat \<Rightarrow> exn + endpoint_description) \<Rightarrow> (nat \<Rightarrow> real) \<Rightarrow> (exn + string) \<Rightarrow> real \<Rightarrow> nat \<Rightarrow>
     (monitor_exit \<times> nat) option" where
  "monitor_loop describe elapsed test_invocation max_wait_seconds k =
     (case monitor_body (describe k) (elapsed k) test_invocation max_wait_seconds of
        Some ex \<Rightarrow> Some (ex, Suc k)
      | None \<Rightarrow> monitor_loop describe elapsed test_invocation max_wait_seconds (Suc k))"

fun monitor_return :: "monitor_exit \<Rightarrow> bool" where
  "monitor_return (Exit_InService p) = True"
| "monitor_return (Exit_Failed r) = False"
| "monitor_return Exit_Timeout = False"
| "monitor_return (Exit_Error e) = False"

definition monitor_endpoint_deployment ::
  "(nat \<Rightarrow> exn + endpoint_description) \<Rightarrow> (nat \<Rightarrow> real) \<Rightarrow> (exn + string) \<Rightarrow> real \<Rightarrow>
     bool option" where
  "monitor_endpoint_deployment describe elapsed test_invocation max_wait_minutes =
     map_option (\<lambda>r. monitor_return (fst r))
       (monitor_loop describe elapsed test_invocation (max_wait_minutes * 60) 0)"

text \<open>What a response means for the loop: a status that is not yet final, or a given status.\<close>

definition pending :: "(exn + endpoint_description) \<Rightarrow> bool" where
  "pending response =
     (case response of
        Inl e \<Rightarrow> False
      | Inr d \<Rightarrow> EndpointStatus d \<noteq> ''InService'' \<and> EndpointStatus d \<noteq> ''Failed'')"

definition has_status :: "(exn + endpoint_description) \<Rightarrow> string \<Rightarrow> bool" where
  "has_status response s = (case response of Inl e \<Rightarrow> False | Inr d \<Rightarrow> EndpointStatus d = s)"

text \<open>
  The clock of a run: the passes are at least the 30 seconds of \<^verbatim>\<open>time.sleep(30)\<close> apart,
  and no time is negative.
\<close>

definition sleeps_30 :: "(nat \<Rightarrow> real) \<Rightarrow> bool" where
  "sleeps_30 elapsed = (0 \<le> elapsed 0 \<and> (\<forall>k. elapsed k + 30 \<le> elapsed (Suc k)))"

text \<open>
  \<^verbatim>\<open>run_glue_workflow(workflow_name)\<close> of deploy.py. The workflow is started, then polled in
  a \<^verbatim>\<open>while True\<close> loop (lines 136-149) that has no ceiling: it ends at status
  \<^verbatim>\<open>COMPLETED\<close> (\<^verbatim>\<open>break\<close>), at \<^verbatim>\<open>FAILED\<close> (\<^verbatim>\<open>sys.exit(1)\<close>) and at an exception
  (the handler of lines 151-153, \<^verbatim>\<open>sys.exit(1)\<close>). The status is the run property
  \<^verbatim>\<open>Status\<close>, \<^verbatim>\<open>RUNNING\<close> when the property is absent.
\<close>

definition workflow_status :: "string option \<Rightarrow> string" where
  "workflow_status property = (case property of None \<Rightarrow> ''RUNNING'' | Some s \<Rightarrow> s)"

definition glue_body :: "(exn + string option) \<Rightarrow> unit completion option" where
  "glue_body response =
     (case response of
        Inl e \<Rightarrow> Some (SysExit 1)
      | Inr property \<Rightarrow>
          if workflow_status property = ''COMPLETED'' then Some (Returns ())
          else if workflow_status property = ''FAILED'' then Some (SysExit 1)
          else None)"

partial_function (option) glue_loop ::
  "(nat \<Rightarrow> exn + string option) \<Rightarrow> nat \<Rightarrow> (unit completion \<times> nat) option" where
  "glue_loop get_workflow_run k =
     (case glue_body (get_workflow_run k) of
        Some c \<Rightarrow> Some (c, Suc k)
      | None \<Rightarrow> glue_loop get_workflow_run (Suc k))"

definition run_glue_workflow ::
  "(exn + string) \<Rightarrow> (nat \<Rightarrow> exn + string option) \<Rightarrow> (unit completion \<times> nat) option" where
  "run_glue_workflow start_workflow_run get_workflow_run =
     (case start_workflow_run of
        Inl e \<Rightarrow> Some (SysExit 1, 0)
      | Inr run_id \<Rightarrow> glue_loop get_workflow_run 0)"

text \<open>
  Modelled from the spec: the attempt-bounded poll behind
  \<^verbatim>\<open>waiter.wait(WaiterConfig={'Delay': 30, 'MaxAttempts': 20})\<close>; the waiter itself is
  library code. Section 4.2: call \<open>fetchStatus\<close>, return \<open>Terminal status\<close> the instant the
  status is in \<open>terminalStates\<close>, return \<open>TimedOut\<close> once \<open>maxAttempts\<close> is used up. The
  second component counts the fetches made.
\<close>

record PollPolicy =
  interval :: nat
  maxAttempts :: nat
  terminalStates :: "string set"

datatype Outcome = Terminal string | TimedOut

fun poll_from :: "(nat \<Rightarrow> string) \<Rightarrow> string set \<Rightarrow> nat \<Rightarrow> nat \<Rightarrow> Outcome \<times> nat" where
  "poll_from fetchStatus terminal 0 k = (TimedOut, k)"
| "poll_from fetchStatus terminal (Suc n) k =
     (if fetchStatus k \<in> terminal then (Terminal (fetchStatus k), Suc k)
      else poll_from fetchStatus terminal n (Suc k))"

definition poll :: "(nat \<Rightarrow> string) \<Rightarrow> PollPolicy \<Rightarrow> Outcome \<times> nat" where
  "poll fetchStatus policy = poll_from fetchStatus (terminalStates policy) (maxAttempts policy) 0"

definition endpoint_policy :: PollPolicy where
  "endpoint_policy = \<lparr>interval = 30, maxAttempts = 20, terminalStates = {''InService'', ''Failed''}\<rparr>"

text \<open>
  The answers of the control plane to one deployment whose endpoint shows the statuses
  \<open>statuses 0\<close>, \<open>statuses 1\<close>, ... to successive describe calls. The creation calls succeed;
  the waiter polls under \<open>endpoint_policy\<close> and \<open>signal\<close> says how it ends for each outcome
  (\<open>None\<close>: it returns); the describe call after the wait sees the next status.
\<close>

definition scenario_env :: "(nat \<Rightarrow> string) \<Rightarrow> (Outcome \<Rightarrow> exn option) \<Rightarrow> deploy_env" where
  "scenario_env statuses signal =
     \<lparr>create_model = \<lambda>n u. Inr ''arn:model'',
      create_endpoint_config = \<lambda>n m. Inr ''arn:config'',
      create_endpoint = \<lambda>n c. Inr ''arn:endpoint'',
      waiter_wait = \<lambda>n. signal (fst (poll statuses endpoint_policy)),
      describe_endpoint = \<lambda>n. Inr \<lparr>EndpointStatus = statuses (snd (poll statuses endpoint_policy)),
        EndpointArn = ''arn:endpoint'', FailureReason = None\<rparr>\<rparr>"

text \<open>
  The library's waiter: it returns when the endpoint is in service and raises
  \<^verbatim>\<open>WaiterError\<close> otherwise.
\<close>

fun waiter_raises :: "Outcome \<Rightarrow> exn option" where
  "waiter_raises (Terminal s) =
     (if s = ''InService'' then None
      else Some (OtherException ''Waiter encountered a terminal failure state''))"
| "waiter_raises TimedOut = Some (OtherException ''Max attempts exceeded'')"

section \<open>The full pipeline run: scripts/run\_full\_pipeline.py, and run\_command of deploy.py\<close>

text \<open>
  What a process shows of itself: its exit code and what it wrote on its two output streams.
  Of the lines that the scripts print, the ones that tell the outcome are kept; they are
  written with \<^verbatim>\<open>print\<close>, that is, to standard output. The interpreter writes the
  traceback of an exception that nothing caught to standard error.
\<close>

datatype message =
    Msg_NoTrainingData
  | Msg_NoSuccessfulJob
  | Msg_NoActiveEndpoint
  | Msg_PipelineFailed exn
  | Msg_Operational string string string string
  | Msg_EndpointStatus "(string \<times> string) list"
  | Msg_StatusError exn
  | Msg_Running string
  | Msg_CommandOutput string
  | Msg_CommandError int string
  | Msg_Traceback exn

fun is_failure_reason :: "message \<Rightarrow> bool" where
  "is_failure_reason Msg_NoTrainingData = True"
| "is_failure_reason Msg_NoSuccessfulJob = True"
| "is_failure_reason Msg_NoActiveEndpoint = True"
| "is_failure_reason (Msg_PipelineFailed e) = True"
| "is_failure_reason (Msg_StatusError e) = True"
| "is_failure_reason (Msg_CommandError c t) = True"
| "is_failure_reason (Msg_Traceback e) = True"
| "is_failure_reason _ = False"

record process =
  exit_code :: nat
  stdout :: "message list"
  stderr :: "message list"

text \<open>
  What one run meets. \<open>client\<close> is \<^verbatim>\<open>boto3.client(service)\<close>: \<open>None\<close> when the client
  is constructed, the exception otherwise (no region or no credentials configured, say).
  The other fields are the answers of the services: the \<^verbatim>\<open>KeyCount\<close> of the listing of
  \<^verbatim>\<open>training/\<close> when the response has one, the summaries of the listed training jobs and
  endpoints as (name, status), newest first and as many as the service chose to return for
  the given \<^verbatim>\<open>MaxResults\<close>, and the body of an invocation.
\<close>

record pipeline_env =
  client :: "string \<Rightarrow> exn option"
  list_objects_v2 :: "exn + nat option"
  list_training_jobs :: "exn + (string \<times> string) list"
  list_endpoints :: "nat \<Rightarrow> exn + (string \<times> string) list"
  invoke_endpoint :: "string \<Rightarrow> string \<Rightarrow> exn + string"

text \<open>
  How a call of one of the functions ends: with the value it returns, or with the exception
  that got out of it; together with the calls it issued and the lines it printed.
\<close>

record 'a run =
  run_value :: "exn + 'a"
  run_calls :: "api_call list"
  run_stdout :: "message list"

text \<open>Clients constructed one after the other: the first exception, if there is one.\<close>

fun construct :: "(string \<Rightarrow> exn option) \<Rightarrow> string list \<Rightarrow> exn option" where
  "construct c [] = None"
| "construct c (service # services) =
     (case c service of Some e \<Rightarrow> Some e | None \<Rightarrow> construct c services)"

definition bucket_data :: string where
  "bucket_data = ''sagemaker-ml-pipeline-data-f5ofrag0''"

definition bucket_models :: string where
  "bucket_models = ''sagemaker-ml-pipeline-models-f5ofrag0''"

definition csv_input :: string where
  "csv_input = ''25.5,68.2,0.374,8,1,217,25.1,67.8,1.2,2.1''"

definition model_artifacts_path :: "string \<Rightarrow> string" where
  "model_artifacts_path job = ''s3://'' @ bucket_models @ ''/output/'' @ job @ ''/output/model.tar.gz''"

text \<open>Lines 48-52: the first listed job whose status is \<^verbatim>\<open>Completed\<close>.\<close>

definition latest_successful_job :: "(string \<times> string) list \<Rightarrow> (string \<times> string) option" where
  "latest_successful_job jobs = find (\<lambda>job. snd job = ''Completed'') jobs"

text \<open>
  Lines 72-81: only the first listed endpoint is looked at; \<^verbatim>\<open>not active_endpoint\<close> holds
  for \<^verbatim>\<open>None\<close> and for an empty name.
\<close>

definition active_endpoint :: "(string \<times> string) list \<Rightarrow> string option" where
  "active_endpoint endpoints =
     (case endpoints of
        [] \<Rightarrow> None
      | endpoint # rest \<Rightarrow>
          if snd endpoint = ''InService'' \<and> fst endpoint \<noteq> [] then Some (fst endpoint)
          else None)"

text \<open>
  The \<^verbatim>\<open>try\<close> block of \<^verbatim>\<open>run_full_ml_pipeline()\<close>, lines 28-117: the value
  returned, the calls issued and the lines printed. Every exception raised inside it,
  that of the runtime client of line 88 included, is caught at line 115 and turned into
  \<^verbatim>\<open>False\<close>.
\<close>

definition try_block :: "pipeline_env \<Rightarrow> bool \<times> api_call list \<times> message list" where
  "try_block env =
     (case list_objects_v2 env of
        Inl e \<Rightarrow> (False, [ListObjectsV2 bucket_data ''training/''], [Msg_PipelineFailed e])
      | Inr key_count \<Rightarrow>
      if (case key_count of None \<Rightarrow> 0 | Some n \<Rightarrow> n) = 0
      then (False, [ListObjectsV2 bucket_data ''training/''], [Msg_NoTrainingData])
      else
      (case list_training_jobs env of
        Inl e \<Rightarrow>
          (False, [ListObjectsV2 bucket_data ''training/'', ListTrainingJobs],
           [Msg_PipelineFailed e])
      | Inr jobs \<Rightarrow>
      (case latest_successful_job jobs of
        None \<Rightarrow>
          (False, [ListObjectsV2 bucket_data ''training/'', ListTrainingJobs],
           [Msg_NoSuccessfulJob])
      | Some job \<Rightarrow>
      (case list_endpoints env 1 of
        Inl e \<Rightarrow>
          (False, [ListObjectsV2 bucket_data ''training/'', ListTrainingJobs, ListEndpoints],
           [Msg_PipelineFailed e])
      | Inr endpoints \<Rightarrow>
      (case active_endpoint endpoints of
        None \<Rightarrow>
          (False, [ListObjectsV2 bucket_data ''training/'', ListTrainingJobs, ListEndpoints],
           [Msg_NoActiveEndpoint])
      | Some active \<Rightarrow>
      (case client env ''sagemaker-runtime'' of
        Some e \<Rightarrow>
          (False, [ListObjectsV2 bucket_data ''training/'', ListTrainingJobs, ListEndpoints],
           [Msg_PipelineFailed e])
      | None \<Rightarrow>
      (case invoke_endpoint env active csv_input of
        Inl e \<Rightarrow>
          (False, [ListObjectsV2 bucket_data ''training/'', ListTrainingJobs, ListEndpoints,
             InvokeEndpoint active csv_input], [Msg_PipelineFailed e])
      | Inr prediction \<Rightarrow>
          (True, [ListObjectsV2 bucket_data ''training/'', ListTrainingJobs, ListEndpoints,
             InvokeEndpoint active csv_input],
           [Msg_Operational (fst job) (model_artifacts_path (fst job)) active
              prediction]))))))))"

text \<open>
  \<^verbatim>\<open>run_full_ml_pipeline()\<close>. The three clients of lines 21-23 are constructed before
  the \<^verbatim>\<open>try\<close>: an exception of theirs gets out of the function, before any call.
\<close>

definition run_full_ml_pipeline :: "pipeline_env \<Rightarrow> bool run" where
  "run_full_ml_pipeline env =
     (case construct (client env) [''sagemaker'', ''s3'', ''glue''] of
        Some e \<Rightarrow> \<lparr>run_value = Inl e, run_calls = [], run_stdout = []\<rparr>
      | None \<Rightarrow>
          \<lparr>run_value = Inr (fst (try_block env)), run_calls = fst (snd (try_block env)),
           run_stdout = snd (snd (try_block env))\<rparr>)"

text \<open>
  \<^verbatim>\<open>quick_endpoint_status()\<close>: its client is constructed before the \<^verbatim>\<open>try\<close> (line
  121); then it lists up to three endpoints and prints them, or the error.
\<close>

definition quick_endpoint_status :: "pipeline_env \<Rightarrow> unit run" where
  "quick_endpoint_status env =
     (case client env ''sagemaker'' of
        Some e \<Rightarrow> \<lparr>run_value = Inl e, run_calls = [], run_stdout = []\<rparr>
      | None \<Rightarrow>
          (case list_endpoints env 3 of
             Inl e \<Rightarrow>
               \<lparr>run_value = Inr (), run_calls = [ListEndpoints],
                run_stdout = [Msg_StatusError e]\<rparr>
           | Inr endpoints \<Rightarrow>
               \<lparr>run_value = Inr (), run_calls = [ListEndpoints],
                run_stdout = [Msg_EndpointStatus endpoints]\<rparr>))"

text \<open>
  The entry point, lines 147-151. \<open>argv\<close> is \<^verbatim>\<open>sys.argv\<close>. The value of
  \<^verbatim>\<open>run_full_ml_pipeline()\<close> is dropped. A script that runs off its end leaves with exit
  code 0; an exception that reaches the top level is printed as a traceback on standard
  error and the exit code is 1.
\<close>

definition status_requested :: "string list \<Rightarrow> bool" where
  "status_requested argv = (length argv > 1 \<and> argv ! 1 = ''--status'')"

definition script_exit :: "'a run \<Rightarrow> process" where
  "script_exit r =
     (case run_value r of
        Inl e \<Rightarrow> \<lparr>exit_code = 1, stdout = run_stdout r, stderr = [Msg_Traceback e]\<rparr>
      | Inr v \<Rightarrow> \<lparr>exit_code = 0, stdout = run_stdout r, stderr = []\<rparr>)"

definition run_full_pipeline_main :: "string list \<Rightarrow> pipeline_env \<Rightarrow> process" where
  "run_full_pipeline_main argv env =
     (if status_requested argv then script_exit (quick_endpoint_status env)
      else script_exit (run_full_ml_pipeline env))"

text \<open>
  \<^verbatim>\<open>run_command(command, cwd=None)\<close> of deploy.py. The command is run with
  \<^verbatim>\<open>check=True\<close>: \<^verbatim>\<open>subprocess.run\<close> gives the command's standard output, or raises
  \<^verbatim>\<open>CalledProcessError\<close> with the return code and the standard error of the command, or
  raises something else (the working directory does not exist, say). The one handler is for
  \<^verbatim>\<open>CalledProcessError\<close>: it prints both and calls \<^verbatim>\<open>sys.exit(1)\<close>. The result is
  how the call ends (an exception that gets out, or the completion) and what it wrote to
  standard output and to standard error.
\<close>

datatype subprocess_outcome =
    Process_Output string
  | Called_Process_Error int string
  | Process_Raised exn

definition run_command ::
  "string \<Rightarrow> (string \<Rightarrow> subprocess_outcome) \<Rightarrow>
     (exn + string completion) \<times> message list \<times> message list" where
  "run_command command subprocess_run =
     (case subprocess_run command of
        Process_Output out \<Rightarrow>
          (Inr (Returns out), [Msg_Running command, Msg_CommandOutput out], [])
      | Called_Process_Error code err \<Rightarrow>
          (Inr (SysExit 1), [Msg_Running command, Msg_CommandError code err], [])
      | Process_Raised e \<Rightarrow> (Inl e, [Msg_Running command], []))"

section \<open>Invocation tests: scripts/test\_endpoint\_predictions.py and test\_endpoint.py\<close>

text \<open>
  \<^verbatim>\<open>test_endpoint_predictions(endpoint_name)\<close> walks over its samples, each a vector of the
  ten features of the comment at lines 14-15. Of a sample the loop uses the comma-joined
  text that it sends and the first feature, the temperature. The body of a pass is one
  \<^verbatim>\<open>try\<close>: the invocation, the reading of the body and \<^verbatim>\<open>float(result)\<close>; the
  environment gives, for the \<open>k\<close>-th pass and its payload, the parsed prediction or the
  exception of any of the three. The handler prints the error and the loop goes on.
\<close>

record sample =
  sample_csv :: string
  sample_temperature :: real

definition test_samples :: "sample list" where
  "test_samples =
     [\<lparr>sample_csv = ''25.5,68.2,0.374,8,1,217,25.1,67.8,1.2,2.1'', sample_temperature = 25.5\<rparr>,
      \<lparr>sample_csv = ''32.1,55.3,0.581,14,1,217,31.8,56.1,2.1,3.2'', sample_temperature = 32.1\<rparr>,
      \<lparr>sample_csv = ''28.7,72.4,0.396,19,1,217,28.9,71.2,1.8,2.8'', sample_temperature = 28.7\<rparr>,
      \<lparr>sample_csv = ''22.3,78.1,0.286,23,1,217,22.8,77.5,1.5,2.4'', sample_temperature = 22.3\<rparr>,
      \<lparr>sample_csv = ''35.2,45.8,0.769,12,2,218,34.8,46.2,2.5,3.1'', sample_temperature = 35.2\<rparr>]"

definition trend :: "real \<Rightarrow> string" where
  "trend temp_diff =
     (if \<bar>temp_diff\<bar> < 1 then ''stable''
      else if temp_diff > 0 then ''increasing'' else ''decreasing'')"

text \<open>What a pass prints: the prediction with its trend, or the error, under the sample's number.\<close>

datatype test_line =
    Line_Prediction nat real string
  | Line_Sample nat real real
  | Line_Error nat exn

fun is_error_line :: "test_line \<Rightarrow> bool" where
  "is_error_line (Line_Error i e) = True"
| "is_error_line _ = False"

text \<open>
  The loop from its \<open>i\<close>-th pass on (the source numbers the samples from 1): the calls issued
  and the lines printed. The function itself returns nothing.
\<close>

fun predictions_from ::
  "(nat \<Rightarrow> string \<Rightarrow> exn + real) \<Rightarrow> string \<Rightarrow> nat \<Rightarrow> sample list \<Rightarrow> api_call list \<times> test_line list"
  where
  "predictions_from invoke endpoint i [] = ([], [])"
| "predictions_from invoke endpoint i (s # rest) =
     (let line = (case invoke i (sample_csv s) of
                    Inl e \<Rightarrow> Line_Error (Suc i) e
                  | Inr predicted_temp \<Rightarrow>
                      Line_Prediction (Suc i) predicted_temp
                        (trend (predicted_temp - sample_temperature s)));
          (calls, lines) = predictions_from invoke endpoint (Suc i) rest
      in (InvokeEndpoint endpoint (sample_csv s) # calls, line # lines))"

definition test_endpoint_predictions ::
  "(nat \<Rightarrow> string \<Rightarrow> exn + real) \<Rightarrow> string \<Rightarrow> sample list \<Rightarrow>
     unit \<times> api_call list \<times> test_line list" where
  "test_endpoint_predictions invoke endpoint samples =
     ((), predictions_from invoke endpoint 0 samples)"

text \<open>
  \<^verbatim>\<open>test_batch_predictions(endpoint_name, runtime_client, num_samples=5)\<close> of
  test\_endpoint.py. Each pass draws a random sample and formats it; the draws of the
  \<^verbatim>\<open>num_samples\<close> passes are given as a list. A dictionary is appended to
  \<^verbatim>\<open>predictions\<close> at the end of the \<^verbatim>\<open>try\<close> (lines 92-98), so only for a pass that
  raised nothing; the handler only prints (lines 102-103). The list is returned.
\<close>

record draw =
  avg_temp :: real
  avg_humidity :: real
  test_data :: string

record prediction =
  sample_no :: nat
  input_temp :: real
  input_humidity :: real
  predicted_temp :: real
  difference :: real

fun batch_from ::
  "(nat \<Rightarrow> string \<Rightarrow> exn + real) \<Rightarrow> string \<Rightarrow> nat \<Rightarrow> draw list \<Rightarrow>
     prediction list \<times> api_call list \<times> test_line list" where
  "batch_from invoke endpoint i [] = ([], [], [])"
| "batch_from invoke endpoint i (d # rest) =
     (let (predictions, calls, lines) = batch_from invoke endpoint (Suc i) rest in
      case invoke i (test_data d) of
        Inl e \<Rightarrow>
          (predictions, InvokeEndpoint endpoint (test_data d) # calls,
           Line_Error (Suc i) e # lines)
      | Inr p \<Rightarrow>
          (\<lparr>sample_no = Suc i, input_temp = avg_temp d, input_humidity = avg_humidity d,
             predicted_temp = p, difference = p - avg_temp d\<rparr> # predictions,
           InvokeEndpoint endpoint (test_data d) # calls,
           Line_Sample (Suc i) (avg_temp d) p # lines))"

definition test_batch_predictions ::
  "(nat \<Rightarrow> string \<Rightarrow> exn + real) \<Rightarrow> string \<Rightarrow> draw list \<Rightarrow>
     prediction list \<times> api_call list \<times> test_line list" where
  "test_batch_predictions invoke endpoint draws = batch_from invoke endpoint 0 draws"

text \<open>The entry that a pass adds to the returned list, if any, and the line it prints.\<close>

definition batch_entry :: "(nat \<Rightarrow> string \<Rightarrow> exn + real) \<Rightarrow> nat \<times> draw \<Rightarrow> prediction option" where
  "batch_entry invoke kd =
     (case invoke (fst kd) (test_data (snd kd)) of
        Inl e \<Rightarrow> None
      | Inr p \<Rightarrow>
          Some \<lparr>sample_no = Suc (fst kd), input_temp = avg_temp (snd kd),
                input_humidity = avg_humidity (snd kd), predicted_temp = p,
                difference = p - avg_temp (snd kd)\<rparr>)"

definition batch_line :: "(nat \<Rightarrow> string \<Rightarrow> exn + real) \<Rightarrow> nat \<times> draw \<Rightarrow> test_line" where
  "batch_line invoke kd =
     (case invoke (fst kd) (test_data (snd kd)) of
        Inl e \<Rightarrow> Line_Error (Suc (fst kd)) e
      | Inr p \<Rightarrow> Line_Sample (Suc (fst kd)) (avg_temp (snd kd)) p)"

definition prediction_line :: "(nat \<Rightarrow> string \<Rightarrow> exn + real) \<Rightarrow> nat \<times> sample \<Rightarrow> test_line" where
  "prediction_line invoke ks =
     (case invoke (fst ks) (sample_csv (snd ks)) of
        Inl e \<Rightarrow> Line_Error (Suc (fst ks)) e
      | Inr p \<Rightarrow> Line_Prediction (Suc (fst ks)) p (trend (p - sample_temperature (snd ks))))"

section \<open>Cleanup: scripts/cleanup\_failed\_resources.py\<close>

text \<open>
  The part of the control plane that a sweep can see or change: the endpoints with their
  status, the endpoint configurations and the models.
\<close>

record world =
  w_endpoints :: "string \<rightharpoonup> string"
  w_endpoint_configs :: "string set"
  w_models :: "string set"

text \<open>
  Modelled from the spec: the control plane behind \<^verbatim>\<open>describe_endpoint\<close> and the three
  delete calls, a service outside the repository. Sections 6 and 8: a delete removes the
  resource; describing or deleting a resource that is not there fails with an error whose
  text says that the resource ``does not exist''. A call can also fail for a reason of its
  own: \<open>faults\<close> gives the exception that a call raises, \<open>None\<close> when it goes through, and a
  call that raises changes nothing.
\<close>

type_synonym faults = "api_call \<Rightarrow> exn option"

definition not_found :: "string \<Rightarrow> exn" where
  "not_found name = ClientError (''An error occurred (ValidationException): '' @ name @ '' does not exist'')"

definition cp_describe_endpoint :: "faults \<Rightarrow> world \<Rightarrow> string \<Rightarrow> exn + string" where
  "cp_describe_endpoint faults w name =
     (case faults (DescribeEndpoint name) of
        Some e \<Rightarrow> Inl e
      | None \<Rightarrow> (case w_endpoints w name of None \<Rightarrow> Inl (not_found name) | Some status \<Rightarrow> Inr status))"

definition cp_delete_endpoint :: "faults \<Rightarrow> world \<Rightarrow> string \<Rightarrow> exn + world" where
  "cp_delete_endpoint faults w name =
     (case faults (DeleteEndpoint name) of
        Some e \<Rightarrow> Inl e
      | None \<Rightarrow>
          (case w_endpoints w name of
             None \<Rightarrow> Inl (not_found name)
           | Some status \<Rightarrow> Inr (w\<lparr>w_endpoints := (w_endpoints w)(name := None)\<rparr>)))"

definition cp_delete_endpoint_config :: "faults \<Rightarrow> world \<Rightarrow> string \<Rightarrow> exn + world" where
  "cp_delete_endpoint_config faults w name =
     (case faults (DeleteEndpointConfig name) of
        Some e \<Rightarrow> Inl e
      | None \<Rightarrow>
          if name \<in> w_endpoint_configs w
          then Inr (w\<lparr>w_endpoint_configs := w_endpoint_configs w - {name}\<rparr>)
          else Inl (not_found name))"

definition cp_delete_model :: "faults \<Rightarrow> world \<Rightarrow> string \<Rightarrow> exn + world" where
  "cp_delete_model faults w name =
     (case faults (DeleteModel name) of
        Some e \<Rightarrow> Inl e
      | None \<Rightarrow>
          if name \<in> w_models w then Inr (w\<lparr>w_models := w_models w - {name}\<rparr>)
          else Inl (not_found name))"

text \<open>\<^verbatim>\<open>'does not exist' in str(e)\<close>: the test of the three handlers.\<close>

fun contains :: "string \<Rightarrow> string \<Rightarrow> bool" where
  "contains part [] = (part = [])"
| "contains part (c # cs) = (prefix part (c # cs) \<or> contains part cs)"

text \<open>
  What the sweep prints for a candidate, and what a sweep, or a part of one, amounts to: the
  control plane it leaves, the calls it issued, the lines it printed, and the exception that
  ended it, if one did. The handlers are \<^verbatim>\<open>except sagemaker.exceptions.ClientError\<close>:
  an exception of any other class is not caught and ends the function.
\<close>

datatype kind = Endpoint | EndpointConfig | Model

datatype cleanup_event =
    Deleted kind string
  | Absent kind string
  | Error_Reported kind string exn
  | Still_Creating string
  | Left_In_Place string string

record sweep =
  sw_world :: world
  sw_calls :: "api_call list"
  sw_report :: "cleanup_event list"
  sw_raised :: "exn option"

definition handler :: "kind \<Rightarrow> string \<Rightarrow> world \<Rightarrow> api_call list \<Rightarrow> exn \<Rightarrow> sweep" where
  "handler k name w issued e =
     (case e of
        ClientError text \<Rightarrow>
          \<lparr>sw_world = w, sw_calls = issued,
           sw_report = [if contains ''does not exist'' text then Absent k name
                        else Error_Reported k name e],
           sw_raised = None\<rparr>
      | OtherException text \<Rightarrow>
          \<lparr>sw_world = w, sw_calls = issued, sw_report = [], sw_raised = Some e\<rparr>)"

text \<open>The body of the first loop, lines 30-49.\<close>

definition cleanup_endpoint :: "faults \<Rightarrow> world \<Rightarrow> string \<Rightarrow> sweep" where
  "cleanup_endpoint faults w name =
     (case cp_describe_endpoint faults w name of
        Inl e \<Rightarrow> handler Endpoint name w [DescribeEndpoint name] e
      | Inr status \<Rightarrow>
          if status = ''Failed'' \<or> status = ''OutOfService'' then
            (case cp_delete_endpoint faults w name of
               Inl e \<Rightarrow>
                 handler Endpoint name w
                   [DescribeEndpoint name, DeleteEndpoint name] e
             | Inr w' \<Rightarrow>
                 \<lparr>sw_world = w',
                  sw_calls = [DescribeEndpoint name, DeleteEndpoint name],
                  sw_report = [Deleted Endpoint name], sw_raised = None\<rparr>)
          else if status = ''Creating'' then
            \<lparr>sw_world = w, sw_calls = [DescribeEndpoint name],
             sw_report = [Still_Creating name], sw_raised = None\<rparr>
          else
            \<lparr>sw_world = w, sw_calls = [DescribeEndpoint name],
             sw_report = [Left_In_Place name status], sw_raised = None\<rparr>)"

text \<open>The bodies of the second and third loop, lines 53-61 and 65-73.\<close>

definition cleanup_config :: "faults \<Rightarrow> world \<Rightarrow> string \<Rightarrow> sweep" where
  "cleanup_config faults w name =
     (case cp_delete_endpoint_config faults w name of
        Inl e \<Rightarrow> handler EndpointConfig name w [DeleteEndpointConfig name] e
      | Inr w' \<Rightarrow>
          \<lparr>sw_world = w', sw_calls = [DeleteEndpointConfig name],
           sw_report = [Deleted EndpointConfig name], sw_raised = None\<rparr>)"

definition cleanup_model :: "faults \<Rightarrow> world \<Rightarrow> string \<Rightarrow> sweep" where
  "cleanup_model faults w name =
     (case cp_delete_model faults w name of
        Inl e \<Rightarrow> handler Model name w [DeleteModel name] e
      | Inr w' \<Rightarrow>
          \<lparr>sw_world = w', sw_calls = [DeleteModel name],
           sw_report = [Deleted Model name], sw_raised = None\<rparr>)"

text \<open>
  Sequencing: what follows runs on the control plane left so far, unless an exception got
  out. A \<^verbatim>\<open>for\<close> loop is its body for the first candidate, then the loop for the rest.
\<close>

definition then_run :: "sweep \<Rightarrow> (world \<Rightarrow> sweep) \<Rightarrow> sweep" where
  "then_run first rest =
     (case sw_raised first of
        Some e \<Rightarrow> first
      | None \<Rightarrow>
          (let second = rest (sw_world first) in
           \<lparr>sw_world = sw_world second, sw_calls = sw_calls first @ sw_calls second,
            sw_report = sw_report first @ sw_report second, sw_raised = sw_raised second\<rparr>))"

fun for_each :: "(world \<Rightarrow> 'c \<Rightarrow> sweep) \<Rightarrow> 'c list \<Rightarrow> world \<Rightarrow> sweep" where
  "for_each body [] w = \<lparr>sw_world = w, sw_calls = [], sw_report = [], sw_raised = None\<rparr>"
| "for_each body (c # cs) w = then_run (body w c) (for_each body cs)"

text \<open>
  \<^verbatim>\<open>cleanup_failed_resources()\<close>: the three loops one after the other. The source fixes the
  three candidate lists (lines 16-26); they are arguments here, and
  \<open>cleanup_failed_resources_script\<close> is the function with the lists of the source.
\<close>

definition cleanup_failed_resources ::
  "faults \<Rightarrow> string list \<Rightarrow> string list \<Rightarrow> string list \<Rightarrow> world \<Rightarrow> sweep" where
  "cleanup_failed_resources faults failed_endpoints failed_configs failed_models w =
     then_run
       (then_run (for_each (cleanup_endpoint faults) failed_endpoints w)
          (for_each (cleanup_config faults) failed_configs))
       (for_each (cleanup_model faults) failed_models)"

definition cleanup_failed_resources_script :: "faults \<Rightarrow> world \<Rightarrow> sweep" where
  "cleanup_failed_resources_script faults w =
     cleanup_failed_resources faults [''sensor-prediction-endpoint-20250805-124642'']
       [''sensor-prediction-config-20250805-124642'']
       [''sensor-prediction-model-20250805-124642''] w"

text \<open>The same sweep seen as one loop over candidates tagged with their kind.\<close>

fun cleanup_candidate :: "faults \<Rightarrow> world \<Rightarrow> kind \<times> string \<Rightarrow> sweep" where
  "cleanup_candidate faults w (Endpoint, name) = cleanup_endpoint faults w name"
| "cleanup_candidate faults w (EndpointConfig, name) = cleanup_config faults w name"
| "cleanup_candidate faults w (Model, name) = cleanup_model faults w name"

definition candidates :: "string list \<Rightarrow> string list \<Rightarrow> string list \<Rightarrow> (kind \<times> string) list" where
  "candidates failed_endpoints failed_configs failed_models =
     map (Pair Endpoint) failed_endpoints @ map (Pair EndpointConfig) failed_configs @
     map (Pair Model) failed_models"

fun subject :: "cleanup_event \<Rightarrow> kind \<times> string" where
  "subject (Deleted k n) = (k, n)"
| "subject (Absent k n) = (k, n)"
| "subject (Error_Reported k n e) = (k, n)"
| "subject (Still_Creating n) = (Endpoint, n)"
| "subject (Left_In_Place n s) = (Endpoint, n)"

fun is_deleted :: "cleanup_event \<Rightarrow> bool" where
  "is_deleted (Deleted k n) = True"
| "is_deleted _ = False"

text \<open>When the sweep would issue the delete call for an endpoint on a given control plane.\<close>

definition deletable :: "faults \<Rightarrow> world \<Rightarrow> string \<Rightarrow> bool" where
  "deletable faults w name =
     (case cp_describe_endpoint faults w name of
        Inl e \<Rightarrow> False
      | Inr status \<Rightarrow> status = ''Failed'' \<or> status = ''OutOfService'')"

text \<open>
  Whether a candidate is on the control plane, the control plane without it, and whether the
  calls that the sweep makes for it go through.
\<close>

fun present :: "world \<Rightarrow> kind \<times> string \<Rightarrow> bool" where
  "present w (Endpoint, name) = (w_endpoints w name \<noteq> None)"
| "present w (EndpointConfig, name) = (name \<in> w_endpoint_configs w)"
| "present w (Model, name) = (name \<in> w_models w)"

fun remove :: "kind \<times> string \<Rightarrow> world \<Rightarrow> world" where
  "remove (Endpoint, name) w = w\<lparr>w_endpoints := (w_endpoints w)(name := None)\<rparr>"
| "remove (EndpointConfig, name) w = w\<lparr>w_endpoint_configs := w_endpoint_configs w - {name}\<rparr>"
| "remove (Model, name) w = w\<lparr>w_models := w_models w - {name}\<rparr>"

fun clear :: "faults \<Rightarrow> kind \<times> string \<Rightarrow> bool" where
  "clear faults (Endpoint, name) =
     (faults (DescribeEndpoint name) = None \<and> faults (DeleteEndpoint name) = None)"
| "clear faults (EndpointConfig, name) = (faults (DeleteEndpointConfig name) = None)"
| "clear faults (Model, name) = (faults (DeleteModel name) = None)"

text \<open>A candidate is settled on a control plane when its pass changes nothing there.\<close>

definition settled :: "faults \<Rightarrow> world \<Rightarrow> kind \<times> string \<Rightarrow> bool" where
  "settled faults w c =
     (sw_world (cleanup_candidate faults w c) = w \<and>
      sw_raised (cleanup_candidate faults w c) = None \<and>
      filter is_deleted (sw_report (cleanup_candidate faults w c)) = [])"

text \<open>
  What a pass does for its candidate, read off the three bodies: it deletes the candidate when
  the calls go through and the candidate is there (for an endpoint: with one of the two
  statuses); it lets an exception out when a call raises something other than
  \<^verbatim>\<open>ClientError\<close>.
\<close>

fun uncaught :: "exn option \<Rightarrow> bool" where
  "uncaught (Some (OtherException text)) = True"
| "uncaught _ = False"

fun would_delete :: "faults \<Rightarrow> world \<Rightarrow> kind \<times> string \<Rightarrow> bool" where
  "would_delete faults w (Endpoint, name) =
     (faults (DescribeEndpoint name) = None \<and> faults (DeleteEndpoint name) = None \<and>
      (w_endpoints w name = Some ''Failed'' \<or> w_endpoints w name = Some ''OutOfService''))"
| "would_delete faults w (EndpointConfig, name) =
     (faults (DeleteEndpointConfig name) = None \<and> name \<in> w_endpoint_configs w)"
| "would_delete faults w (Model, name) =
     (faults (DeleteModel name) = None \<and> name \<in> w_models w)"

fun would_raise :: "faults \<Rightarrow> world \<Rightarrow> kind \<times> string \<Rightarrow> bool" where
  "would_raise faults w (Endpoint, name) =
     (uncaught (faults (DescribeEndpoint name)) \<or>
      faults (DescribeEndpoint name) = None \<and>
      (w_endpoints w name = Some ''Failed'' \<or> w_endpoints w name = Some ''OutOfService'') \<and>
      uncaught (faults (DeleteEndpoint name)))"
| "would_raise faults w (EndpointConfig, name) = uncaught (faults (DeleteEndpointConfig name))"
| "would_raise faults w (Model, name) = uncaught (faults (DeleteModel name))"

section \<open>Properties of the resource names\<close>



















lemma days_before_month_step:
  "1 \<le> m \<Longrightarrow> days_before_month y (m + 1) = days_before_month y m + days_in_month y m"
  by simp






















section \<open>Order of the creation calls\<close>

lemma deploy_model_calls:
  "fst (deploy_model env now1 now2 now3) =
     call_sequence env (model_name now1) model_artifacts (endpoint_config_name now2)
       (endpoint_name now3)"
  by (simp add: deploy_model_def call_sequence_def Let_def split: sum.split option.split)

lemma deploy_model_github_calls:
  "fst (deploy_model_github env path model_name_arg endpoint_name_arg now) =
     call_sequence env (or_generated model_name_arg (model_name now)) path
       (endpoint_config_name now) (or_generated endpoint_name_arg (endpoint_name now))"
  by (simp add: deploy_model_github_def call_sequence_def Let_def split: sum.split option.split)

lemma call_sequence_creations:
  "prefix (filter is_creation (call_sequence env mn art cn en))
     [CreateModel mn art, CreateEndpointConfig cn mn, CreateEndpoint en cn]"
  by (simp add: call_sequence_def split: sum.split option.split)

lemma call_sequence_starts: "filter is_creation (call_sequence env mn art cn en) \<noteq> []"
  by (simp add: call_sequence_def)

lemma call_sequence_config:
  "CreateEndpointConfig a b \<in> set (call_sequence env mn art cn en) \<Longrightarrow>
     \<exists>arn. create_model env mn art = Inr arn"
  by (cases "create_model env mn art") (auto simp: call_sequence_def)

lemma call_sequence_endpoint:
  "CreateEndpoint a b \<in> set (call_sequence env mn art cn en) \<Longrightarrow>
     (\<exists>arn. create_model env mn art = Inr arn) \<and>
     (\<exists>arn. create_endpoint_config env cn mn = Inr arn)"
  by (cases "create_model env mn art"; cases "create_endpoint_config env cn mn")
    (auto simp: call_sequence_def)

text \<open>
  C3. In every execution of either deployment function the calls issued begin with
  \<^verbatim>\<open>create_model\<close>; \<^verbatim>\<open>create_endpoint_config\<close> is called only after
  \<^verbatim>\<open>create_model\<close> returned, and \<^verbatim>\<open>create_endpoint\<close> only after both returned. The
  creation calls made are an initial segment of model, endpoint configuration, endpoint.
\<close>

theorem deploy_model_creation_order:
  "prefix (filter is_creation (fst (deploy_model env now1 now2 now3)))
     [CreateModel (model_name now1) model_artifacts,
      CreateEndpointConfig (endpoint_config_name now2) (model_name now1),
      CreateEndpoint (endpoint_name now3) (endpoint_config_name now2)] \<and>
   filter is_creation (fst (deploy_model env now1 now2 now3)) \<noteq> [] \<and>
   ((\<exists>a b. CreateEndpointConfig a b \<in> set (fst (deploy_model env now1 now2 now3))) \<longrightarrow>
      (\<exists>arn. create_model env (model_name now1) model_artifacts = Inr arn)) \<and>
   ((\<exists>a b. CreateEndpoint a b \<in> set (fst (deploy_model env now1 now2 now3))) \<longrightarrow>
      (\<exists>arn. create_model env (model_name now1) model_artifacts = Inr arn) \<and>
      (\<exists>arn. create_endpoint_config env (endpoint_config_name now2) (model_name now1)
         = Inr arn)) \<and>
   prefix (filter is_creation (fst (deploy_model_github env path mn_arg en_arg now)))
     [CreateModel (or_generated mn_arg (model_name now)) path,
      CreateEndpointConfig (endpoint_config_name now) (or_generated mn_arg (model_name now)),
      CreateEndpoint (or_generated en_arg (endpoint_name now)) (endpoint_config_name now)] \<and>
   filter is_creation (fst (deploy_model_github env path mn_arg en_arg now)) \<noteq> [] \<and>
   ((\<exists>a b. CreateEndpointConfig a b
        \<in> set (fst (deploy_model_github env path mn_arg en_arg now))) \<longrightarrow>
      (\<exists>arn. create_model env (or_generated mn_arg (model_name now)) path = Inr arn)) \<and>
   ((\<exists>a b. CreateEndpoint a b
        \<in> set (fst (deploy_model_github env path mn_arg en_arg now))) \<longrightarrow>
      (\<exists>arn. create_model env (or_generated mn_arg (model_name now)) path = Inr arn) \<and>
      (\<exists>arn. create_endpoint_config env (endpoint_config_name now)
         (or_generated mn_arg (model_name now)) = Inr arn))"
  unfolding deploy_model_calls deploy_model_github_calls
proof (intro conjI impI)
qed (rule call_sequence_creations call_sequence_starts |
     (elim exE, erule call_sequence_config) |
     (elim exE, drule call_sequence_endpoint, simp))+

theorem deploy_model_creation_order_witness:
  "(\<exists>a b. CreateEndpointConfig a b \<in> set (fst (deploy_model
      \<lparr>create_model = \<lambda>n u. Inr ''arn:model'', create_endpoint_config = \<lambda>n m. Inr ''arn:config'',
       create_endpoint = \<lambda>n c. Inr ''arn:endpoint'', waiter_wait = \<lambda>n. None,
       describe_endpoint = \<lambda>n. Inr \<lparr>EndpointStatus = ''InService'',
         EndpointArn = ''arn:endpoint'', FailureReason = None\<rparr>\<rparr>
      \<lparr>year = 2025, month = 8, day = 5, hour = 12, minute = 46, second = 42, microsecond = 0\<rparr>
      \<lparr>year = 2025, month = 8, day = 5, hour = 12, minute = 46, second = 42, microsecond = 9\<rparr>
      \<lparr>year = 2025, month = 8, day = 5, hour = 12, minute = 46, second = 43,
        microsecond = 0\<rparr>))) \<and>
   (\<exists>a b. CreateEndpoint a b \<in> set (fst (deploy_model
      \<lparr>create_model = \<lambda>n u. Inr ''arn:model'', create_endpoint_config = \<lambda>n m. Inr ''arn:config'',
       create_endpoint = \<lambda>n c. Inr ''arn:endpoint'', waiter_wait = \<lambda>n. None,
       describe_endpoint = \<lambda>n. Inr \<lparr>EndpointStatus = ''InService'',
         EndpointArn = ''arn:endpoint'', FailureReason = None\<rparr>\<rparr>
      \<lparr>year = 2025, month = 8, day = 5, hour = 12, minute = 46, second = 42, microsecond = 0\<rparr>
      \<lparr>year = 2025, month = 8, day = 5, hour = 12, minute = 46, second = 42, microsecond = 9\<rparr>
      \<lparr>year = 2025, month = 8, day = 5, hour = 12, minute = 46, second = 43,
        microsecond = 0\<rparr>))) \<and>
   (\<exists>a b. CreateEndpointConfig a b \<in> set (fst (deploy_model_github
      \<lparr>create_model = \<lambda>n u. Inr ''arn:model'', create_endpoint_config = \<lambda>n m. Inr ''arn:config'',
       create_endpoint = \<lambda>n c. Inr ''arn:endpoint'', waiter_wait = \<lambda>n. None,
       describe_endpoint = \<lambda>n. Inr \<lparr>EndpointStatus = ''InService'',
         EndpointArn = ''arn:endpoint'', FailureReason = None\<rparr>\<rparr>
      ''s3://bucket/output/job/output/model.tar.gz'' None None
      \<lparr>year = 2025, month = 8, day = 5, hour = 12, minute = 46, second = 42,
        microsecond = 0\<rparr>))) \<and>
   (\<exists>a b. CreateEndpoint a b \<in> set (fst (deploy_model_github
      \<lparr>create_model = \<lambda>n u. Inr ''arn:model'', create_endpoint_config = \<lambda>n m. Inr ''arn:config'',
       create_endpoint = \<lambda>n c. Inr ''arn:endpoint'', waiter_wait = \<lambda>n. None,
       describe_endpoint = \<lambda>n. Inr \<lparr>EndpointStatus = ''InService'',
         EndpointArn = ''arn:endpoint'', FailureReason = None\<rparr>\<rparr>
      ''s3://bucket/output/job/output/model.tar.gz'' None None
      \<lparr>year = 2025, month = 8, day = 5, hour = 12, minute = 46, second = 42,
        microsecond = 0\<rparr>))) \<and>
   filter is_creation (fst (deploy_model
      \<lparr>create_model = \<lambda>n u. Inr ''arn:model'', create_endpoint_config = \<lambda>n m. Inr ''arn:config'',
       create_endpoint = \<lambda>n c. Inr ''arn:endpoint'', waiter_wait = \<lambda>n. None,
       describe_endpoint = \<lambda>n. Inr \<lparr>EndpointStatus = ''InService'',
         EndpointArn = ''arn:endpoint'', FailureReason = None\<rparr>\<rparr>
      \<lparr>year = 2025, month = 8, day = 5, hour = 12, minute = 46, second = 42, microsecond = 0\<rparr>
      \<lparr>year = 2025, month = 8, day = 5, hour = 12, minute = 46, second = 42, microsecond = 9\<rparr>
      \<lparr>year = 2025, month = 8, day = 5, hour = 12, minute = 46, second = 43,
        microsecond = 0\<rparr>)) \<noteq> []"
proof -
  let ?env = "\<lparr>create_model = \<lambda>n u. Inr ''arn:model'',
       create_endpoint_config = \<lambda>n m. Inr ''arn:config'',
       create_endpoint = \<lambda>n c. Inr ''arn:endpoint'', waiter_wait = \<lambda>n. None,
       describe_endpoint = \<lambda>n. Inr \<lparr>EndpointStatus = ''InService'',
         EndpointArn = ''arn:endpoint'', FailureReason = None\<rparr>\<rparr>"
  let ?t1 = "\<lparr>year = 2025, month = 8, day = 5, hour = 12, minute = 46, second = 42,
       microsecond = 0\<rparr>"
  let ?t2 = "\<lparr>year = 2025, month = 8, day = 5, hour = 12, minute = 46, second = 42,
       microsecond = 9\<rparr>"
  let ?t3 = "\<lparr>year = 2025, month = 8, day = 5, hour = 12, minute = 46, second = 43,
       microsecond = 0\<rparr>"
  let ?p = "''s3://bucket/output/job/output/model.tar.gz''"
  have "\<exists>a b. CreateEndpointConfig a b \<in> set (fst (deploy_model ?env ?t1 ?t2 ?t3))"
    and "\<exists>a b. CreateEndpoint a b \<in> set (fst (deploy_model ?env ?t1 ?t2 ?t3))"
    and "\<exists>a b. CreateEndpointConfig a b
           \<in> set (fst (deploy_model_github ?env ?p None None ?t1))"
    and "\<exists>a b. CreateEndpoint a b \<in> set (fst (deploy_model_github ?env ?p None None ?t1))"
    by (simp_all add: deploy_model_calls deploy_model_github_calls call_sequence_def)
  with deploy_model_creation_order [of ?env ?t1 ?t2 ?t3 ?p None None ?t1]
  show ?thesis
    by blast
qed

section \<open>Properties of the polling loops\<close>

lemma monitor_loop_stop:
  "monitor_body (describe k) (elapsed k) ti mx = Some ex \<Longrightarrow>
     monitor_loop describe elapsed ti mx k = Some (ex, Suc k)"
  by (subst monitor_loop.simps) simp

lemma monitor_loop_continue:
  "monitor_body (describe k) (elapsed k) ti mx = None \<Longrightarrow>
     monitor_loop describe elapsed ti mx k = monitor_loop describe elapsed ti mx (Suc k)"
  by (subst monitor_loop.simps) simp

lemma monitor_body_None:
  "monitor_body r t ti mx = None \<longleftrightarrow> pending r \<and> t \<le> mx"
  by (auto simp: monitor_body_def pending_def split: sum.splits)

lemma monitor_loop_reaches:
  "(\<forall>j. i \<le> j \<and> j < k \<longrightarrow> monitor_body (describe j) (elapsed j) ti mx = None) \<Longrightarrow>
   i \<le> k \<Longrightarrow>
   monitor_loop describe elapsed ti mx i = monitor_loop describe elapsed ti mx k"
proof (induction "k - i" arbitrary: i)
  case 0
  then show ?case by simp
next
  case (Suc d)
  then have "monitor_body (describe i) (elapsed i) ti mx = None" and "Suc i \<le> k"
    by auto
  moreover from Suc have "monitor_loop describe elapsed ti mx (Suc i)
      = monitor_loop describe elapsed ti mx k"
    by auto
  ultimately show ?case
    by (simp add: monitor_loop_continue)
qed

lemma monitor_loop_Some:
  assumes "monitor_loop describe elapsed ti mx i = Some y"
  shows "\<exists>k\<ge>i. snd y = Suc k \<and> monitor_body (describe k) (elapsed k) ti mx = Some (fst y) \<and>
       (\<forall>j. i \<le> j \<and> j < k \<longrightarrow> monitor_body (describe j) (elapsed j) ti mx = None)"
  using assms
proof (rule monitor_loop.raw_induct [rotated, where P = "\<lambda>describe elapsed ti mx i y.
     \<exists>k\<ge>i. snd y = Suc k \<and> monitor_body (describe k) (elapsed k) ti mx = Some (fst y) \<and>
       (\<forall>j. i \<le> j \<and> j < k \<longrightarrow> monitor_body (describe j) (elapsed j) ti mx = None)"],
    goal_cases)
  case (1 loop describe elapsed ti mx i y)
  show ?case
  proof (cases "monitor_body (describe i) (elapsed i) ti mx")
    case None
    with 1(2) have "loop describe elapsed ti mx (Suc i) = Some y"
      by simp
    from 1(1) [OF this] obtain k where k: "Suc i \<le> k" "snd y = Suc k"
        "monitor_body (describe k) (elapsed k) ti mx = Some (fst y)"
        "\<forall>j. Suc i \<le> j \<and> j < k \<longrightarrow> monitor_body (describe j) (elapsed j) ti mx = None"
      by blast
    have "monitor_body (describe j) (elapsed j) ti mx = None" if "i \<le> j \<and> j < k" for j
    proof (cases "j = i")
      case True
      with None show ?thesis by simp
    next
      case False
      with that have "Suc i \<le> j \<and> j < k" by simp
      with k(4) show ?thesis by blast
    qed
    with k(1,2,3) show ?thesis
      by (intro exI [of _ k]) simp
  next
    case (Some ex)
    with 1(2) have "y = (ex, Suc i)"
      by simp
    with Some show ?thesis
      by (intro exI [of _ i]) auto
  qed
qed

lemma monitor_loop_iff:
  "monitor_loop describe elapsed ti mx 0 = Some (ex, n) \<longleftrightarrow>
     (\<exists>k. n = Suc k \<and> monitor_body (describe k) (elapsed k) ti mx = Some ex \<and>
        (\<forall>j<k. monitor_body (describe j) (elapsed j) ti mx = None))"
proof
  assume "monitor_loop describe elapsed ti mx 0 = Some (ex, n)"
  from monitor_loop_Some [OF this] show "\<exists>k. n = Suc k \<and>
      monitor_body (describe k) (elapsed k) ti mx = Some ex \<and>
      (\<forall>j<k. monitor_body (describe j) (elapsed j) ti mx = None)"
    by auto
next
  assume "\<exists>k. n = Suc k \<and> monitor_body (describe k) (elapsed k) ti mx = Some ex \<and>
      (\<forall>j<k. monitor_body (describe j) (elapsed j) ti mx = None)"
  then obtain k where k: "n = Suc k" "monitor_body (describe k) (elapsed k) ti mx = Some ex"
      "\<forall>j<k. monitor_body (describe j) (elapsed j) ti mx = None"
    by blast
  from k(3) have "monitor_loop describe elapsed ti mx 0 = monitor_loop describe elapsed ti mx k"
    by (intro monitor_loop_reaches) auto
  with k(1,2) show "monitor_loop describe elapsed ti mx 0 = Some (ex, n)"
    by (simp add: monitor_loop_stop)
qed

lemma monitor_loop_bounded:
  "\<forall>k. elapsed k + 30 \<le> elapsed (Suc k) \<Longrightarrow> mx < elapsed k + 30 * real m \<Longrightarrow>
     \<exists>ex n. monitor_loop describe elapsed ti mx k = Some (ex, n) \<and> k < n \<and> n \<le> k + m + 1"
proof (induction m arbitrary: k)
  case 0
  then have "monitor_body (describe k) (elapsed k) ti mx \<noteq> None"
    by (simp add: monitor_body_None)
  then obtain ex where "monitor_body (describe k) (elapsed k) ti mx = Some ex"
    by blast
  then show ?case
    by (simp add: monitor_loop_stop)
next
  case (Suc m)
  show ?case
  proof (cases "monitor_body (describe k) (elapsed k) ti mx")
    case None
    from Suc.prems(1) have "elapsed k + 30 \<le> elapsed (Suc k)"
      by blast
    with Suc.prems(2) have "mx < elapsed (Suc k) + 30 * real m"
      by (simp add: algebra_simps)
    from Suc.IH [OF Suc.prems(1) this] obtain ex n
      where "monitor_loop describe elapsed ti mx (Suc k) = Some (ex, n)" "Suc k < n"
        "n \<le> Suc k + m + 1"
      by blast
    with None show ?thesis
      by (simp add: monitor_loop_continue)
  next
    case (Some ex)
    then show ?thesis
      by (simp add: monitor_loop_stop)
  qed
qed

lemma ceiling_reached: "mx < 30 * real (nat \<lfloor>mx / 30\<rfloor> + 1)"
proof -
  have "mx / 30 < real_of_int \<lfloor>mx / 30\<rfloor> + 1"
    by linarith
  also have "\<dots> \<le> real (nat \<lfloor>mx / 30\<rfloor>) + 1"
    by simp
  finally show ?thesis
    by simp
qed

lemma glue_loop_stop:
  "glue_body (get k) = Some c \<Longrightarrow> glue_loop get k = Some (c, Suc k)"
  by (subst glue_loop.simps) simp

lemma glue_loop_continue:
  "glue_body (get k) = None \<Longrightarrow> glue_loop get k = glue_loop get (Suc k)"
  by (subst glue_loop.simps) simp

lemma glue_loop_reaches:
  "(\<forall>j. i \<le> j \<and> j < k \<longrightarrow> glue_body (get j) = None) \<Longrightarrow> i \<le> k \<Longrightarrow>
     glue_loop get i = glue_loop get k"
proof (induction "k - i" arbitrary: i)
  case 0
  then show ?case by simp
next
  case (Suc d)
  then have "glue_body (get i) = None" and "Suc i \<le> k"
    by auto
  moreover from Suc have "glue_loop get (Suc i) = glue_loop get k"
    by auto
  ultimately show ?case
    by (simp add: glue_loop_continue)
qed

lemma glue_loop_Some:
  assumes "glue_loop get i = Some y"
  shows "\<exists>k\<ge>i. snd y = Suc k \<and> glue_body (get k) = Some (fst y) \<and>
       (\<forall>j. i \<le> j \<and> j < k \<longrightarrow> glue_body (get j) = None)"
  using assms
proof (rule glue_loop.raw_induct [rotated, where P = "\<lambda>get i y.
     \<exists>k\<ge>i. snd y = Suc k \<and> glue_body (get k) = Some (fst y) \<and>
       (\<forall>j. i \<le> j \<and> j < k \<longrightarrow> glue_body (get j) = None)"], goal_cases)
  case (1 loop get i y)
  show ?case
  proof (cases "glue_body (get i)")
    case None
    with 1(2) have "loop get (Suc i) = Some y"
      by simp
    from 1(1) [OF this] obtain k where k: "Suc i \<le> k" "snd y = Suc k"
        "glue_body (get k) = Some (fst y)"
        "\<forall>j. Suc i \<le> j \<and> j < k \<longrightarrow> glue_body (get j) = None"
      by blast
    have "glue_body (get j) = None" if "i \<le> j \<and> j < k" for j
    proof (cases "j = i")
      case True
      with None show ?thesis by simp
    next
      case False
      with that have "Suc i \<le> j \<and> j < k" by simp
      with k(4) show ?thesis by blast
    qed
    with k(1,2,3) show ?thesis
      by (intro exI [of _ k]) simp
  next
    case (Some c)
    with 1(2) have "y = (c, Suc i)"
      by simp
    with Some show ?thesis
      by (intro exI [of _ i]) auto
  qed
qed

lemma glue_loop_iff:
  "glue_loop get 0 = Some (c, n) \<longleftrightarrow>
     (\<exists>k. n = Suc k \<and> glue_body (get k) = Some c \<and> (\<forall>j<k. glue_body (get j) = None))"
proof
  assume "glue_loop get 0 = Some (c, n)"
  from glue_loop_Some [OF this]
  show "\<exists>k. n = Suc k \<and> glue_body (get k) = Some c \<and> (\<forall>j<k. glue_body (get j) = None)"
    by auto
next
  assume "\<exists>k. n = Suc k \<and> glue_body (get k) = Some c \<and> (\<forall>j<k. glue_body (get j) = None)"
  then obtain k where k: "n = Suc k" "glue_body (get k) = Some c"
      "\<forall>j<k. glue_body (get j) = None"
    by blast
  from k(3) have "glue_loop get 0 = glue_loop get k"
    by (intro glue_loop_reaches) auto
  with k(1,2) show "glue_loop get 0 = Some (c, n)"
    by (simp add: glue_loop_stop)
qed

lemma glue_loop_forever:
  assumes "\<forall>k. glue_body (get k) = None"
  shows "glue_loop get i = None"
proof (cases "glue_loop get i")
  case (Some y)
  from glue_loop_Some [OF this] assms show ?thesis
    by auto
qed simp

lemma monitor_body_InService:
  "(\<exists>p. monitor_body r t ti mx = Some (Exit_InService p)) \<longleftrightarrow> has_status r ''InService''"
  by (auto simp: monitor_body_def has_status_def split: sum.splits)

lemma monitor_body_Failed:
  "(\<exists>reason. monitor_body r t ti mx = Some (Exit_Failed reason)) \<longleftrightarrow> has_status r ''Failed''"
  by (auto simp: monitor_body_def has_status_def split: sum.splits)

lemma monitor_body_Timeout:
  "monitor_body r t ti mx = Some Exit_Timeout \<longleftrightarrow> pending r \<and> mx < t"
  by (auto simp: monitor_body_def pending_def split: sum.splits)


lemma monitor_within_ceiling:
  assumes "sleeps_30 elapsed"
  shows "\<exists>ex n. monitor_loop describe elapsed ti mx 0 = Some (ex, n) \<and> 0 < n \<and>
           n \<le> nat \<lfloor>mx / 30\<rfloor> + 2"
proof -
  from assms have step: "\<forall>k. elapsed k + 30 \<le> elapsed (Suc k)" and "0 \<le> elapsed 0"
    by (simp_all add: sleeps_30_def)
  with ceiling_reached [of mx] have "mx < elapsed 0 + 30 * real (nat \<lfloor>mx / 30\<rfloor> + 1)"
    by linarith
  from monitor_loop_bounded [OF step this, of describe ti] show ?thesis
    by auto
qed


lemma poll_from_exhausted:
  "(\<forall>j. k \<le> j \<and> j < k + n \<longrightarrow> fetchStatus j \<notin> terminal) \<Longrightarrow>
     poll_from fetchStatus terminal n k = (TimedOut, k + n)"
  by (induction n arbitrary: k) auto

lemma monitor_return_of_loop:
  "monitor_loop describe elapsed ti (max_wait_minutes * 60) 0 = Some (ex, n) \<Longrightarrow>
     monitor_endpoint_deployment describe elapsed ti max_wait_minutes = Some (monitor_return ex)"
  by (simp add: monitor_endpoint_deployment_def)

lemma monitor_loop_at:
  "monitor_body (describe k) (elapsed k) ti mx = Some ex \<Longrightarrow>
   (\<forall>j<k. pending (describe j) \<and> elapsed j \<le> mx) \<Longrightarrow>
     monitor_loop describe elapsed ti mx 0 = Some (ex, Suc k)"
  by (simp add: monitor_loop_iff monitor_body_None)

lemma github_not_in_service:
  assumes "\<And>n. waiter_wait env n = None \<Longrightarrow>
      (\<forall>d. describe_endpoint env n = Inr d \<longrightarrow> EndpointStatus d \<noteq> ''InService'')"
  shows "snd (deploy_model_github env path mn_arg en_arg now) = None"
proof -
  let ?en = "or_generated en_arg (endpoint_name now)"
  show ?thesis
  proof (cases "waiter_wait env ?en")
    case None
    with assms [of ?en] show ?thesis
      by (auto simp: deploy_model_github_def Let_def split: sum.split)
  next
    case (Some e)
    then show ?thesis
      by (simp add: deploy_model_github_def Let_def split: sum.split)
  qed
qed


lemma poll_creating:
  "poll (\<lambda>k. if k < 21 then ''Creating'' else s) endpoint_policy = (TimedOut, 20)"
proof -
  have "poll_from (\<lambda>k. if k < 21 then ''Creating'' else s) {''InService'', ''Failed''} 20 0
      = (TimedOut, 0 + 20)"
    by (rule poll_from_exhausted) simp
  then show ?thesis
    by (simp add: poll_def endpoint_policy_def)
qed

lemma poll_failed: "poll (\<lambda>k. ''Failed'') endpoint_policy = (Terminal ''Failed'', 1)"
  by (simp add: poll_def endpoint_policy_def eval_nat_numeral)

section \<open>What the polling loops guarantee\<close>

text \<open>
  C1, as the code has it. The endpoint monitor, whose passes are at least 30 seconds apart,
  returns after at most \<open>\<lfloor>max_wait_seconds / 30\<rfloor> + 2\<close> describe calls. It leaves with
  \<^verbatim>\<open>InService\<close> or \<^verbatim>\<open>Failed\<close> at the first pass \<open>k\<close> that sees that status exactly
  when every earlier pass saw a status that is not final at an elapsed time not above the
  ceiling (the pass \<open>k\<close> itself may lie after the ceiling, the status being tested before
  the clock); it leaves with the timeout at the first pass whose status is not final and whose
  elapsed time is above the ceiling. The workflow poll of \<^verbatim>\<open>run_glue_workflow\<close> has no
  ceiling: it ends exactly when a pass sees \<^verbatim>\<open>COMPLETED\<close>, \<^verbatim>\<open>FAILED\<close> or an
  exception, and it never returns when no pass does.
\<close>

theorem monitor_poll_bounded:
  assumes "sleeps_30 elapsed"
  shows
    "(\<exists>ex n. monitor_loop describe elapsed ti mx 0 = Some (ex, n) \<and> 0 < n \<and>
        n \<le> nat \<lfloor>mx / 30\<rfloor> + 2) \<and>
     ((\<exists>p. monitor_loop describe elapsed ti mx 0 = Some (Exit_InService p, Suc k)) \<longleftrightarrow>
        has_status (describe k) ''InService'' \<and>
        (\<forall>j<k. pending (describe j) \<and> elapsed j \<le> mx)) \<and>
     ((\<exists>reason. monitor_loop describe elapsed ti mx 0 = Some (Exit_Failed reason, Suc k)) \<longleftrightarrow>
        has_status (describe k) ''Failed'' \<and>
        (\<forall>j<k. pending (describe j) \<and> elapsed j \<le> mx)) \<and>
     (monitor_loop describe elapsed ti mx 0 = Some (Exit_Timeout, Suc k) \<longleftrightarrow>
        pending (describe k) \<and> mx < elapsed k \<and>
        (\<forall>j<k. pending (describe j) \<and> elapsed j \<le> mx)) \<and>
     (run_glue_workflow (Inr run_id) get = Some (c, n) \<longleftrightarrow>
        (\<exists>i. n = Suc i \<and> glue_body (get i) = Some c \<and> (\<forall>j<i. glue_body (get j) = None))) \<and>
     ((\<forall>i. glue_body (get i) = None) \<longrightarrow> run_glue_workflow (Inr run_id) get = None)"
proof (intro conjI)
  show "\<exists>ex n. monitor_loop describe elapsed ti mx 0 = Some (ex, n) \<and> 0 < n \<and>
        n \<le> nat \<lfloor>mx / 30\<rfloor> + 2"
    by (rule monitor_within_ceiling [OF assms])
  show "(\<exists>p. monitor_loop describe elapsed ti mx 0 = Some (Exit_InService p, Suc k)) \<longleftrightarrow>
        has_status (describe k) ''InService'' \<and>
        (\<forall>j<k. pending (describe j) \<and> elapsed j \<le> mx)"
    using monitor_body_InService [of "describe k" "elapsed k" ti mx]
    by (simp add: monitor_loop_iff monitor_body_None)
  show "(\<exists>reason. monitor_loop describe elapsed ti mx 0 = Some (Exit_Failed reason, Suc k)) \<longleftrightarrow>
        has_status (describe k) ''Failed'' \<and>
        (\<forall>j<k. pending (describe j) \<and> elapsed j \<le> mx)"
    using monitor_body_Failed [of "describe k" "elapsed k" ti mx]
    by (simp add: monitor_loop_iff monitor_body_None)
  show "monitor_loop describe elapsed ti mx 0 = Some (Exit_Timeout, Suc k) \<longleftrightarrow>
        pending (describe k) \<and> mx < elapsed k \<and>
        (\<forall>j<k. pending (describe j) \<and> elapsed j \<le> mx)"
    by (simp add: monitor_loop_iff monitor_body_None monitor_body_Timeout)
  show "run_glue_workflow (Inr run_id) get = Some (c, n) \<longleftrightarrow>
        (\<exists>i. n = Suc i \<and> glue_body (get i) = Some c \<and> (\<forall>j<i. glue_body (get j) = None))"
    by (simp add: run_glue_workflow_def glue_loop_iff)
  show "(\<forall>i. glue_body (get i) = None) \<longrightarrow> run_glue_workflow (Inr run_id) get = None"
    by (simp add: run_glue_workflow_def glue_loop_forever)
qed


theorem monitor_poll_bounded_witness:
  "sleeps_30 (\<lambda>k. 30 * real k) \<and>
   (\<exists>p. monitor_loop
      (\<lambda>k. Inr \<lparr>EndpointStatus = (if k < 2 then ''Creating'' else ''InService''),
         EndpointArn = ''arn:endpoint'', FailureReason = None\<rparr>)
      (\<lambda>k. 30 * real k) (Inr ''25.1'') 900 0 = Some (Exit_InService p, 3)) \<and>
   monitor_loop
      (\<lambda>k. Inr \<lparr>EndpointStatus = ''Creating'', EndpointArn = ''arn:endpoint'',
         FailureReason = None\<rparr>)
      (\<lambda>k. 30 * real k) (Inr ''25.1'') 60 0 = Some (Exit_Timeout, 4) \<and>
   run_glue_workflow (Inr ''run-1'') (\<lambda>i. Inr None) = None"
proof -
  let ?clock = "\<lambda>k::nat. 30 * real k"
  let ?up = "\<lambda>k::nat. Inr \<lparr>EndpointStatus = (if k < 2 then ''Creating'' else ''InService''),
         EndpointArn = ''arn:endpoint'', FailureReason = None\<rparr> :: exn + endpoint_description"
  let ?slow = "\<lambda>k::nat. Inr \<lparr>EndpointStatus = ''Creating'', EndpointArn = ''arn:endpoint'',
         FailureReason = None\<rparr> :: exn + endpoint_description"
  let ?idle = "\<lambda>i::nat. Inr None :: exn + string option"
  have clock: "sleeps_30 ?clock"
    by (simp add: sleeps_30_def)
  have up: "has_status (?up 2) ''InService'' \<and> (\<forall>j<2. pending (?up j) \<and> ?clock j \<le> 900)"
    by (simp add: has_status_def pending_def numeral_2_eq_2 All_less_Suc)
  have slow: "pending (?slow 3) \<and> 60 < ?clock 3 \<and> (\<forall>j<3. pending (?slow j) \<and> ?clock j \<le> 60)"
    by (simp add: pending_def numeral_3_eq_3 All_less_Suc)
  have idle: "\<forall>i. glue_body (?idle i) = None"
    by (simp add: glue_body_def workflow_status_def)
  from monitor_poll_bounded [OF clock, of ?up "Inr ''25.1''" 900 2 "''run-1''" ?idle] up idle
  have "(\<exists>p. monitor_loop ?up ?clock (Inr ''25.1'') 900 0 = Some (Exit_InService p, 3))"
    and "run_glue_workflow (Inr ''run-1'') ?idle = None"
    by (simp_all add: numeral_3_eq_3 numeral_2_eq_2)
  moreover
  from monitor_poll_bounded [OF clock, of ?slow "Inr ''25.1''" 60 3] slow
  have "monitor_loop ?slow ?clock (Inr ''25.1'') 60 0 = Some (Exit_Timeout, 4)"
    by (simp add: eval_nat_numeral)
  ultimately show ?thesis
    using clock by simp
qed

theorem workflow_poll_unbounded_counterexample:
  "run_glue_workflow (Inr ''run-1'') (\<lambda>k. Inr (Some ''RUNNING'')) = None"
  by (simp add: run_glue_workflow_def glue_loop_forever glue_body_def workflow_status_def)




text \<open>
  C2, as the code has it. For the status \<^verbatim>\<open>Creating\<close> observed 21 times under the
  20-attempt ceiling the poll gives \<open>TimedOut\<close> after 20 fetches. The deployment functions
  have no outcome of their own for that: however the waiter reports it,
  \<^verbatim>\<open>deploy_model\<close> of deploy\_model\_github.py returns \<^verbatim>\<open>None\<close>, which is also what it
  returns when the endpoint ends in \<^verbatim>\<open>Failed\<close>; with a waiter that raises,
  \<^verbatim>\<open>deploy_model\<close> of deploy\_model.py ends with that exception re-raised. The wall-clock
  monitor leaves through its timeout branch, where it returns \<^verbatim>\<open>False\<close>, the value it
  returns for \<^verbatim>\<open>Failed\<close> too.
\<close>

theorem timeout_outcome:
  "poll (\<lambda>k. if k < 21 then ''Creating'' else s) endpoint_policy = (TimedOut, 20) \<and>
   snd (deploy_model_github (scenario_env (\<lambda>k. if k < 21 then ''Creating'' else s) signal)
      path mn_arg en_arg now) = None \<and>
   snd (deploy_model_github (scenario_env (\<lambda>k. ''Failed'') signal) path mn_arg en_arg now)
      = None \<and>
   (\<exists>e. snd (deploy_model (scenario_env (\<lambda>k. if k < 21 then ''Creating'' else s)
      waiter_raises) now1 now2 now3) = Inl e) \<and>
   (pending (describe k) \<and> max_wait_minutes * 60 < elapsed k \<and>
      (\<forall>j<k. pending (describe j) \<and> elapsed j \<le> max_wait_minutes * 60) \<longrightarrow>
      monitor_loop describe elapsed ti (max_wait_minutes * 60) 0 = Some (Exit_Timeout, Suc k) \<and>
      monitor_endpoint_deployment describe elapsed ti max_wait_minutes = Some False) \<and>
   (has_status (describe k) ''Failed'' \<and>
      (\<forall>j<k. pending (describe j) \<and> elapsed j \<le> max_wait_minutes * 60) \<longrightarrow>
      monitor_endpoint_deployment describe elapsed ti max_wait_minutes = Some False)"
proof (intro conjI impI)
  show "poll (\<lambda>k. if k < 21 then ''Creating'' else s) endpoint_policy = (TimedOut, 20)"
    by (rule poll_creating)
  show "snd (deploy_model_github (scenario_env (\<lambda>k. if k < 21 then ''Creating'' else s) signal)
      path mn_arg en_arg now) = None"
    by (rule github_not_in_service) (simp add: scenario_env_def poll_creating)
  show "snd (deploy_model_github (scenario_env (\<lambda>k. ''Failed'') signal) path mn_arg en_arg now)
      = None"
    by (rule github_not_in_service) (simp add: scenario_env_def)
  show "\<exists>e. snd (deploy_model (scenario_env (\<lambda>k. if k < 21 then ''Creating'' else s)
      waiter_raises) now1 now2 now3) = Inl e"
    by (simp add: deploy_model_def scenario_env_def poll_creating Let_def)
next
  assume a: "pending (describe k) \<and> max_wait_minutes * 60 < elapsed k \<and>
      (\<forall>j<k. pending (describe j) \<and> elapsed j \<le> max_wait_minutes * 60)"
  then have "monitor_body (describe k) (elapsed k) ti (max_wait_minutes * 60) = Some Exit_Timeout"
    by (simp add: monitor_body_Timeout)
  with a have l: "monitor_loop describe elapsed ti (max_wait_minutes * 60) 0
      = Some (Exit_Timeout, Suc k)"
    by (intro monitor_loop_at) simp_all
  then show "monitor_loop describe elapsed ti (max_wait_minutes * 60) 0
      = Some (Exit_Timeout, Suc k)" .
  from monitor_return_of_loop [OF l]
  show "monitor_endpoint_deployment describe elapsed ti max_wait_minutes = Some False"
    by simp
next
  assume a: "has_status (describe k) ''Failed'' \<and>
      (\<forall>j<k. pending (describe j) \<and> elapsed j \<le> max_wait_minutes * 60)"
  then obtain reason
    where "monitor_body (describe k) (elapsed k) ti (max_wait_minutes * 60)
      = Some (Exit_Failed reason)"
    using monitor_body_Failed [of "describe k" "elapsed k" ti "max_wait_minutes * 60"]
    by blast
  with a have l: "monitor_loop describe elapsed ti (max_wait_minutes * 60) 0
      = Some (Exit_Failed reason, Suc k)"
    by (intro monitor_loop_at) simp_all
  from monitor_return_of_loop [OF l]
  show "monitor_endpoint_deployment describe elapsed ti max_wait_minutes = Some False"
    by simp
qed

theorem timeout_outcome_witness:
  "monitor_loop
     (\<lambda>k. Inr \<lparr>EndpointStatus = ''Creating'', EndpointArn = ''arn:endpoint'',
        FailureReason = None\<rparr>)
     (\<lambda>k. 30 * real k) (Inr ''25.1'') (1 * 60) 0 = Some (Exit_Timeout, 4) \<and>
   monitor_endpoint_deployment
     (\<lambda>k. Inr \<lparr>EndpointStatus = ''Creating'', EndpointArn = ''arn:endpoint'',
        FailureReason = None\<rparr>)
     (\<lambda>k. 30 * real k) (Inr ''25.1'') 1 = Some False \<and>
   monitor_endpoint_deployment
     (\<lambda>k. Inr \<lparr>EndpointStatus = (if k = 0 then ''Creating'' else ''Failed''),
        EndpointArn = ''arn:endpoint'', FailureReason = Some ''OutOfCapacity''\<rparr>)
     (\<lambda>k. 30 * real k) (Inr ''25.1'') 1 = Some False"
proof -
  let ?slow = "\<lambda>k::nat. Inr \<lparr>EndpointStatus = ''Creating'', EndpointArn = ''arn:endpoint'',
        FailureReason = None\<rparr> :: exn + endpoint_description"
  let ?bad = "\<lambda>k::nat. Inr \<lparr>EndpointStatus = (if k = 0 then ''Creating'' else ''Failed''),
        EndpointArn = ''arn:endpoint'', FailureReason = Some ''OutOfCapacity''\<rparr>
        :: exn + endpoint_description"
  let ?clock = "\<lambda>k::nat. 30 * real k"
  have slow: "pending (?slow 3) \<and> 1 * 60 < ?clock 3 \<and>
      (\<forall>j<3. pending (?slow j) \<and> ?clock j \<le> 1 * 60)"
    by (simp add: pending_def numeral_3_eq_3 All_less_Suc)
  have bad: "has_status (?bad 1) ''Failed'' \<and> (\<forall>j<1. pending (?bad j) \<and> ?clock j \<le> 1 * 60)"
    by (simp add: pending_def has_status_def)
  from timeout_outcome [of _ _ _ _ _ _ _ _ _ ?slow 3 1 ?clock "Inr ''25.1''"] slow
  have "monitor_loop ?slow ?clock (Inr ''25.1'') (1 * 60) 0 = Some (Exit_Timeout, 4)"
    and "monitor_endpoint_deployment ?slow ?clock (Inr ''25.1'') 1 = Some False"
    by (simp_all add: eval_nat_numeral)
  moreover
  from timeout_outcome [of _ _ _ _ _ _ _ _ _ ?bad 1 1 ?clock "Inr ''25.1''"] bad
  have "monitor_endpoint_deployment ?bad ?clock (Inr ''25.1'') 1 = Some False"
    by simp
  ultimately show ?thesis
    by simp
qed

theorem timeout_conflated_with_failure_counterexample:
  "fst (poll (\<lambda>k. if k < 21 then ''Creating'' else ''InService'') endpoint_policy) = TimedOut \<and>
   snd (deploy_model_github
      (scenario_env (\<lambda>k. if k < 21 then ''Creating'' else ''InService'') waiter_raises)
      ''s3://bucket/output/job/output/model.tar.gz'' None None
      \<lparr>year = 2025, month = 8, day = 5, hour = 12, minute = 46, second = 42, microsecond = 0\<rparr>)
     = None \<and>
   snd (deploy_model_github (scenario_env (\<lambda>k. ''Failed'') waiter_raises)
      ''s3://bucket/output/job/output/model.tar.gz'' None None
      \<lparr>year = 2025, month = 8, day = 5, hour = 12, minute = 46, second = 42, microsecond = 0\<rparr>)
     = None \<and>
   monitor_endpoint_deployment
     (\<lambda>k. Inr \<lparr>EndpointStatus = ''Creating'', EndpointArn = ''arn:endpoint'',
        FailureReason = None\<rparr>)
     (\<lambda>k. 30 * real k) (Inr ''25.1'') 1 = Some False \<and>
   monitor_endpoint_deployment
     (\<lambda>k. Inr \<lparr>EndpointStatus = ''Failed'', EndpointArn = ''arn:endpoint'',
        FailureReason = Some ''OutOfCapacity''\<rparr>)
     (\<lambda>k. 30 * real k) (Inr ''25.1'') 1 = Some False"
proof -
  let ?slow = "\<lambda>k::nat. Inr \<lparr>EndpointStatus = ''Creating'', EndpointArn = ''arn:endpoint'',
        FailureReason = None\<rparr> :: exn + endpoint_description"
  let ?bad = "\<lambda>k::nat. Inr \<lparr>EndpointStatus = ''Failed'', EndpointArn = ''arn:endpoint'',
        FailureReason = Some ''OutOfCapacity''\<rparr> :: exn + endpoint_description"
  let ?clock = "\<lambda>k::nat. 30 * real k"
  have "monitor_loop ?slow ?clock (Inr ''25.1'') (1 * 60) 0 = Some (Exit_Timeout, Suc 3)"
    by (rule monitor_loop_at)
      (simp_all add: monitor_body_def pending_def numeral_3_eq_3 All_less_Suc)
  from monitor_return_of_loop [OF this]
  have slow: "monitor_endpoint_deployment ?slow ?clock (Inr ''25.1'') 1 = Some False"
    by simp
  have "monitor_loop ?bad ?clock (Inr ''25.1'') (1 * 60) 0
      = Some (Exit_Failed (Some ''OutOfCapacity''), Suc 0)"
    by (rule monitor_loop_at) (simp_all add: monitor_body_def)
  from monitor_return_of_loop [OF this]
  have bad: "monitor_endpoint_deployment ?bad ?clock (Inr ''25.1'') 1 = Some False"
    by simp
  have "snd (deploy_model_github
      (scenario_env (\<lambda>k. if k < 21 then ''Creating'' else ''InService'') waiter_raises)
      ''s3://bucket/output/job/output/model.tar.gz'' None None
      \<lparr>year = 2025, month = 8, day = 5, hour = 12, minute = 46, second = 42, microsecond = 0\<rparr>)
     = None"
    by (rule github_not_in_service) (simp add: scenario_env_def poll_creating)
  moreover have "snd (deploy_model_github (scenario_env (\<lambda>k. ''Failed'') waiter_raises)
      ''s3://bucket/output/job/output/model.tar.gz'' None None
      \<lparr>year = 2025, month = 8, day = 5, hour = 12, minute = 46, second = 42, microsecond = 0\<rparr>)
     = None"
    by (rule github_not_in_service) (simp add: scenario_env_def poll_failed)
  ultimately show ?thesis
    using slow bad by (simp add: poll_creating)
qed

section \<open>The full pipeline run creates nothing\<close>






lemma try_block_reason:
  "\<not> fst (try_block env) \<Longrightarrow> filter is_failure_reason (snd (snd (try_block env))) \<noteq> []"
  by (auto simp: try_block_def split: sum.splits option.splits if_splits)






lemma run_value_False:
  "construct (client env) [''sagemaker'', ''s3'', ''glue''] = None \<Longrightarrow>
     run_value (run_full_ml_pipeline env) = Inr False \<longleftrightarrow> \<not> fst (try_block env)"
  by (simp add: run_full_ml_pipeline_def)





section \<open>Exit codes\<close>

text \<open>
  C9, as the code has it. Once its clients are constructed,
  \<^verbatim>\<open>run_full_ml_pipeline\<close> returns \<^verbatim>\<open>True\<close> or \<^verbatim>\<open>False\<close> and the entry point of
  run\_full\_pipeline.py ends with exit code 0 in either case, with nothing on standard
  error; after \<^verbatim>\<open>False\<close> a failure reason is on standard output. Only an exception
  that gets out, as one of the clients constructed before the \<^verbatim>\<open>try\<close> can raise, ends
  the script with exit code 1 and a traceback on standard error. \<^verbatim>\<open>run_command\<close>
  returns the command's output when the command succeeds; when the command fails it prints
  the reason to standard output and leaves the process with exit code 1; any other exception
  of \<^verbatim>\<open>subprocess.run\<close> gets out of it.
\<close>

theorem exit_codes:
  "(\<not> status_requested argv \<and>
    construct (client env) [''sagemaker'', ''s3'', ''glue''] = None \<longrightarrow>
      (\<exists>b. run_value (run_full_ml_pipeline env) = Inr b) \<and>
      exit_code (run_full_pipeline_main argv env) = 0 \<and>
      stderr (run_full_pipeline_main argv env) = [] \<and>
      (run_value (run_full_ml_pipeline env) = Inr False \<longrightarrow>
         filter is_failure_reason (stdout (run_full_pipeline_main argv env)) \<noteq> [])) \<and>
   (\<not> status_requested argv \<and>
    construct (client env) [''sagemaker'', ''s3'', ''glue''] = Some e \<longrightarrow>
      run_full_pipeline_main argv env =
        \<lparr>exit_code = 1, stdout = [], stderr = [Msg_Traceback e]\<rparr>) \<and>
   (status_requested argv \<and> client env ''sagemaker'' = None \<longrightarrow>
      exit_code (run_full_pipeline_main argv env) = 0 \<and>
      stderr (run_full_pipeline_main argv env) = []) \<and>
   (status_requested argv \<and> client env ''sagemaker'' = Some e \<longrightarrow>
      run_full_pipeline_main argv env =
        \<lparr>exit_code = 1, stdout = [], stderr = [Msg_Traceback e]\<rparr>) \<and>
   (subprocess_run command = Process_Output out \<longrightarrow>
      run_command command subprocess_run =
        (Inr (Returns out), [Msg_Running command, Msg_CommandOutput out], [])) \<and>
   (subprocess_run command = Called_Process_Error code err \<longrightarrow>
      run_command command subprocess_run =
        (Inr (SysExit 1), [Msg_Running command, Msg_CommandError code err], [])) \<and>
   (subprocess_run command = Process_Raised e \<longrightarrow>
      run_command command subprocess_run = (Inl e, [Msg_Running command], []))"
proof (intro conjI impI)
  assume a: "\<not> status_requested argv \<and>
    construct (client env) [''sagemaker'', ''s3'', ''glue''] = None"
  then show "\<exists>b. run_value (run_full_ml_pipeline env) = Inr b"
    and "exit_code (run_full_pipeline_main argv env) = 0"
    and "stderr (run_full_pipeline_main argv env) = []"
    by (simp_all add: run_full_pipeline_main_def script_exit_def run_full_ml_pipeline_def)
  assume "run_value (run_full_ml_pipeline env) = Inr False"
  with a have "\<not> fst (try_block env)"
    by (simp add: run_value_False)
  from try_block_reason [OF this] a
  show "filter is_failure_reason (stdout (run_full_pipeline_main argv env)) \<noteq> []"
    by (simp add: run_full_pipeline_main_def script_exit_def run_full_ml_pipeline_def)
next
  assume "\<not> status_requested argv \<and>
    construct (client env) [''sagemaker'', ''s3'', ''glue''] = Some e"
  then show "run_full_pipeline_main argv env =
        \<lparr>exit_code = 1, stdout = [], stderr = [Msg_Traceback e]\<rparr>"
    by (simp add: run_full_pipeline_main_def script_exit_def run_full_ml_pipeline_def)
next
  assume "status_requested argv \<and> client env ''sagemaker'' = None"
  then show "exit_code (run_full_pipeline_main argv env) = 0"
    and "stderr (run_full_pipeline_main argv env) = []"
    by (simp_all add: run_full_pipeline_main_def script_exit_def quick_endpoint_status_def
        split: sum.split)
next
  assume "status_requested argv \<and> client env ''sagemaker'' = Some e"
  then show "run_full_pipeline_main argv env =
        \<lparr>exit_code = 1, stdout = [], stderr = [Msg_Traceback e]\<rparr>"
    by (simp add: run_full_pipeline_main_def script_exit_def quick_endpoint_status_def)
next
  show "run_command command subprocess_run =
        (Inr (Returns out), [Msg_Running command, Msg_CommandOutput out], [])"
    if "subprocess_run command = Process_Output out"
    using that by (simp add: run_command_def)
  show "run_command command subprocess_run =
        (Inr (SysExit 1), [Msg_Running command, Msg_CommandError code err], [])"
    if "subprocess_run command = Called_Process_Error code err"
    using that by (simp add: run_command_def)
  show "run_command command subprocess_run = (Inl e, [Msg_Running command], [])"
    if "subprocess_run command = Process_Raised e"
    using that by (simp add: run_command_def)
qed

theorem exit_codes_witness:
  "run_value (run_full_ml_pipeline
     \<lparr>client = \<lambda>service. None, list_objects_v2 = Inr (Some 2), list_training_jobs = Inr [],
      list_endpoints = \<lambda>n. Inr [], invoke_endpoint = \<lambda>n b. Inr ''25.31''\<rparr>) = Inr False \<and>
   exit_code (run_full_pipeline_main [''run_full_pipeline.py'']
     \<lparr>client = \<lambda>service. None, list_objects_v2 = Inr (Some 2), list_training_jobs = Inr [],
      list_endpoints = \<lambda>n. Inr [], invoke_endpoint = \<lambda>n b. Inr ''25.31''\<rparr>) = 0 \<and>
   filter is_failure_reason (stdout (run_full_pipeline_main [''run_full_pipeline.py'']
     \<lparr>client = \<lambda>service. None, list_objects_v2 = Inr (Some 2), list_training_jobs = Inr [],
      list_endpoints = \<lambda>n. Inr [], invoke_endpoint = \<lambda>n b. Inr ''25.31''\<rparr>)) \<noteq> [] \<and>
   run_full_pipeline_main [''run_full_pipeline.py'']
     \<lparr>client = \<lambda>service. if service = ''s3''
        then Some (OtherException ''NoRegionError: You must specify a region.'') else None,
      list_objects_v2 = Inr (Some 2), list_training_jobs = Inr [],
      list_endpoints = \<lambda>n. Inr [], invoke_endpoint = \<lambda>n b. Inr ''25.31''\<rparr> =
     \<lparr>exit_code = 1, stdout = [],
      stderr = [Msg_Traceback (OtherException ''NoRegionError: You must specify a region.'')]\<rparr> \<and>
   run_full_pipeline_main [''run_full_pipeline.py'', ''--status'']
     \<lparr>client = \<lambda>service. Some (OtherException ''NoRegionError: You must specify a region.''),
      list_objects_v2 = Inr (Some 2), list_training_jobs = Inr [],
      list_endpoints = \<lambda>n. Inr [], invoke_endpoint = \<lambda>n b. Inr ''25.31''\<rparr> =
     \<lparr>exit_code = 1, stdout = [],
      stderr = [Msg_Traceback (OtherException ''NoRegionError: You must specify a region.'')]\<rparr> \<and>
   exit_code (run_full_pipeline_main [''run_full_pipeline.py'', ''--status'']
     \<lparr>client = \<lambda>service. None, list_objects_v2 = Inr (Some 2), list_training_jobs = Inr [],
      list_endpoints = \<lambda>n. Inr [], invoke_endpoint = \<lambda>n b. Inr ''25.31''\<rparr>) = 0 \<and>
   run_command ''terraform init'' (\<lambda>c. Process_Output ''Terraform has been initialized'') =
     (Inr (Returns ''Terraform has been initialized''),
      [Msg_Running ''terraform init'', Msg_CommandOutput ''Terraform has been initialized''],
      []) \<and>
   run_command ''terraform plan''
       (\<lambda>c. Called_Process_Error 1 ''Error: No configuration files'') =
     (Inr (SysExit 1),
      [Msg_Running ''terraform plan'', Msg_CommandError 1 ''Error: No configuration files''],
      []) \<and>
   run_command ''terraform apply''
       (\<lambda>c. Process_Raised (OtherException ''FileNotFoundError'')) =
     (Inl (OtherException ''FileNotFoundError''), [Msg_Running ''terraform apply''], [])"
proof -
  let ?env = "\<lparr>client = \<lambda>service. None, list_objects_v2 = Inr (Some 2),
      list_training_jobs = Inr [], list_endpoints = \<lambda>n. Inr [],
      invoke_endpoint = \<lambda>n b. Inr ''25.31''\<rparr>"
  let ?err = "OtherException ''NoRegionError: You must specify a region.''"
  let ?nos3 = "\<lparr>client = \<lambda>service. if service = ''s3'' then Some ?err else None,
      list_objects_v2 = Inr (Some 2), list_training_jobs = Inr [],
      list_endpoints = \<lambda>n. Inr [], invoke_endpoint = \<lambda>n b. Inr ''25.31''\<rparr>"
  let ?none = "\<lparr>client = \<lambda>service. Some ?err,
      list_objects_v2 = Inr (Some 2), list_training_jobs = Inr [],
      list_endpoints = \<lambda>n. Inr [], invoke_endpoint = \<lambda>n b. Inr ''25.31''\<rparr>"
  let ?run = "[''run_full_pipeline.py'']"
  let ?status = "[''run_full_pipeline.py'', ''--status'']"
  have r: "\<not> status_requested ?run" and s: "status_requested ?status"
    by (simp_all add: status_requested_def)
  have c: "construct (client ?env) [''sagemaker'', ''s3'', ''glue''] = None"
    and f: "run_value (run_full_ml_pipeline ?env) = Inr False"
    and n: "construct (client ?nos3) [''sagemaker'', ''s3'', ''glue''] = Some ?err"
    and k: "client ?none ''sagemaker'' = Some ?err" "client ?env ''sagemaker'' = None"
    by (simp_all add: run_full_ml_pipeline_def try_block_def latest_successful_job_def)
  from exit_codes [of ?run ?env] r c f
  have "exit_code (run_full_pipeline_main ?run ?env) = 0"
    and "filter is_failure_reason (stdout (run_full_pipeline_main ?run ?env)) \<noteq> []"
    by blast+
  moreover
  from exit_codes [of ?run ?nos3 ?err] r n
  have "run_full_pipeline_main ?run ?nos3 =
      \<lparr>exit_code = 1, stdout = [], stderr = [Msg_Traceback ?err]\<rparr>"
    by blast
  moreover
  from exit_codes [of ?status ?none ?err] s k(1)
  have "run_full_pipeline_main ?status ?none =
      \<lparr>exit_code = 1, stdout = [], stderr = [Msg_Traceback ?err]\<rparr>"
    by blast
  moreover
  from exit_codes [of ?status ?env] s k(2)
  have "exit_code (run_full_pipeline_main ?status ?env) = 0"
    by blast
  moreover
  from exit_codes [of _ _ _ "\<lambda>c. Process_Output ''Terraform has been initialized''"
      "''terraform init''" "''Terraform has been initialized''"]
  have "run_command ''terraform init'' (\<lambda>c. Process_Output ''Terraform has been initialized'') =
     (Inr (Returns ''Terraform has been initialized''),
      [Msg_Running ''terraform init'', Msg_CommandOutput ''Terraform has been initialized''],
      [])"
    by simp
  moreover
  from exit_codes [of _ _ _ "\<lambda>c. Called_Process_Error 1 ''Error: No configuration files''"
      "''terraform plan''" _ 1 "''Error: No configuration files''"]
  have "run_command ''terraform plan''
       (\<lambda>c. Called_Process_Error 1 ''Error: No configuration files'') =
     (Inr (SysExit 1),
      [Msg_Running ''terraform plan'', Msg_CommandError 1 ''Error: No configuration files''],
      [])"
    by simp
  moreover
  from exit_codes [of _ _ "OtherException ''FileNotFoundError''"
      "\<lambda>c. Process_Raised (OtherException ''FileNotFoundError'')" "''terraform apply''"]
  have "run_command ''terraform apply''
       (\<lambda>c. Process_Raised (OtherException ''FileNotFoundError'')) =
     (Inl (OtherException ''FileNotFoundError''), [Msg_Running ''terraform apply''], [])"
    by simp
  ultimately show ?thesis
    using f by simp
qed

theorem failed_run_exits_zero_counterexample:
  "run_value (run_full_ml_pipeline
     \<lparr>client = \<lambda>service. None, list_objects_v2 = Inr (Some 0), list_training_jobs = Inr [],
      list_endpoints = \<lambda>n. Inr [], invoke_endpoint = \<lambda>n b. Inr ''25.31''\<rparr>) = Inr False \<and>
   run_full_pipeline_main [''run_full_pipeline.py'']
     \<lparr>client = \<lambda>service. None, list_objects_v2 = Inr (Some 0), list_training_jobs = Inr [],
      list_endpoints = \<lambda>n. Inr [], invoke_endpoint = \<lambda>n b. Inr ''25.31''\<rparr>
     = \<lparr>exit_code = 0, stdout = [Msg_NoTrainingData], stderr = []\<rparr>"
  by (simp add: run_full_pipeline_main_def script_exit_def run_full_ml_pipeline_def
      try_block_def status_requested_def)

section \<open>One invocation per sample\<close>

lemma predictions_from_eq:
  "predictions_from invoke endpoint i samples =
     (map (\<lambda>s. InvokeEndpoint endpoint (sample_csv s)) samples,
      map (prediction_line invoke) (enumerate i samples))"
  by (induction samples arbitrary: i) (simp_all add: prediction_line_def split: sum.split)

lemma batch_from_eq:
  "batch_from invoke endpoint i draws =
     (List.map_filter (batch_entry invoke) (enumerate i draws),
      map (\<lambda>d. InvokeEndpoint endpoint (test_data d)) draws,
      map (batch_line invoke) (enumerate i draws))"
  by (induction draws arbitrary: i)
    (simp_all add: batch_entry_def batch_line_def map_filter_simps split: sum.split)

lemma length_map_filter_le: "length (List.map_filter f xs) \<le> length xs"
  by (simp add: map_filter_def)

lemma length_map_filter_eq:
  "length (List.map_filter f xs) = length xs \<longleftrightarrow> (\<forall>x\<in>set xs. f x \<noteq> None)"
proof (induction xs)
  case Nil
  show ?case
    by (simp add: map_filter_simps)
next
  case (Cons a xs)
  show ?case
  proof (cases "f a")
    case None
    with length_map_filter_le [of f xs] show ?thesis
      by (auto simp: map_filter_simps)
  next
    case (Some y)
    with Cons show ?thesis
      by (simp add: map_filter_simps)
  qed
qed

lemma batch_entry_None:
  "batch_entry invoke kd = None \<longleftrightarrow> (\<exists>e. invoke (fst kd) (test_data (snd kd)) = Inl e)"
  by (simp add: batch_entry_def split: sum.split)

lemma batch_entry_Some:
  "(\<exists>y. batch_entry invoke (k, d) = Some y) \<longleftrightarrow> (\<exists>p. invoke k (test_data d) = Inr p)"
  by (cases "invoke k (test_data d)") (simp_all add: batch_entry_def)

lemma all_entries_iff:
  "(\<forall>x\<in>set (enumerate 0 draws). batch_entry invoke x \<noteq> None) \<longleftrightarrow>
     (\<forall>k<length draws. \<exists>p. invoke k (test_data (draws ! k)) = Inr p)"
proof
  assume a: "\<forall>x\<in>set (enumerate 0 draws). batch_entry invoke x \<noteq> None"
  show "\<forall>k<length draws. \<exists>p. invoke k (test_data (draws ! k)) = Inr p"
  proof (intro allI impI)
    fix k assume "k < length draws"
    then have "(k, draws ! k) \<in> set (enumerate 0 draws)"
      by (simp add: in_set_enumerate_eq)
    with a have "\<exists>y. batch_entry invoke (k, draws ! k) = Some y"
      by auto
    then show "\<exists>p. invoke k (test_data (draws ! k)) = Inr p"
      by (simp only: batch_entry_Some)
  qed
next
  assume a: "\<forall>k<length draws. \<exists>p. invoke k (test_data (draws ! k)) = Inr p"
  show "\<forall>x\<in>set (enumerate 0 draws). batch_entry invoke x \<noteq> None"
  proof
    fix x assume "x \<in> set (enumerate 0 draws)"
    then have x: "fst x < length draws" "snd x = draws ! fst x"
      by (simp_all add: in_set_enumerate_eq)
    with a have "\<exists>p. invoke (fst x) (test_data (snd x)) = Inr p"
      by simp
    then have "\<exists>y. batch_entry invoke (fst x, snd x) = Some y"
      by (simp only: batch_entry_Some)
    then show "batch_entry invoke x \<noteq> None"
      by simp
  qed
qed

text \<open>
  C4, as the code has it. For every list of samples both test functions invoke the endpoint
  once per sample, in order and whether or not earlier invocations failed, and print one line
  per sample, the prediction or the error. \<^verbatim>\<open>test_endpoint_predictions\<close> returns nothing.
  \<^verbatim>\<open>test_batch_predictions\<close> returns the entries of the successful samples only, in the
  order of the samples: never more than there are samples, and as many exactly when every
  invocation succeeded.
\<close>

theorem one_invocation_per_sample:
  "fst (snd (test_endpoint_predictions invoke endpoint samples)) =
     map (\<lambda>s. InvokeEndpoint endpoint (sample_csv s)) samples \<and>
   snd (snd (test_endpoint_predictions invoke endpoint samples)) =
     map (prediction_line invoke) (enumerate 0 samples) \<and>
   length (snd (snd (test_endpoint_predictions invoke endpoint samples))) = length samples \<and>
   fst (snd (test_batch_predictions invoke endpoint draws)) =
     map (\<lambda>d. InvokeEndpoint endpoint (test_data d)) draws \<and>
   snd (snd (test_batch_predictions invoke endpoint draws)) =
     map (batch_line invoke) (enumerate 0 draws) \<and>
   fst (test_batch_predictions invoke endpoint draws) =
     List.map_filter (batch_entry invoke) (enumerate 0 draws) \<and>
   length (fst (test_batch_predictions invoke endpoint draws)) \<le> length draws \<and>
   (length (fst (test_batch_predictions invoke endpoint draws)) = length draws \<longleftrightarrow>
      (\<forall>k<length draws. \<exists>p. invoke k (test_data (draws ! k)) = Inr p))"
proof -
  have "length (List.map_filter (batch_entry invoke) (enumerate 0 draws)) \<le> length draws"
    using length_map_filter_le [of "batch_entry invoke" "enumerate 0 draws"] by simp
  moreover
  have "length (List.map_filter (batch_entry invoke) (enumerate 0 draws)) = length draws \<longleftrightarrow>
      (\<forall>k<length draws. \<exists>p. invoke k (test_data (draws ! k)) = Inr p)"
    using length_map_filter_eq [of "batch_entry invoke" "enumerate 0 draws"]
      all_entries_iff [of draws invoke]
    by (simp only: length_enumerate)
  ultimately show ?thesis
    by (simp add: test_endpoint_predictions_def test_batch_predictions_def
        predictions_from_eq batch_from_eq)
qed

theorem one_invocation_per_sample_witness:
  "(\<lambda>k b. Inr (26 + real k)) 0 ''25.00,60.00'' = (Inr 26 :: exn + real) \<and>
   (\<lambda>k b. Inr (26 + real k)) 1 ''27.00,55.00'' = (Inr 27 :: exn + real) \<and>
   length (fst (test_batch_predictions (\<lambda>k b. Inr (26 + real k)) ''sensor-endpoint''
      [\<lparr>avg_temp = 25, avg_humidity = 60, test_data = ''25.00,60.00''\<rparr>,
       \<lparr>avg_temp = 27, avg_humidity = 55, test_data = ''27.00,55.00''\<rparr>])) = 2 \<and>
   fst (snd (test_endpoint_predictions (\<lambda>k b. Inl (ClientError ''ModelError''))
      ''sensor-endpoint'' test_samples)) =
     map (\<lambda>s. InvokeEndpoint ''sensor-endpoint'' (sample_csv s)) test_samples"
proof -
  let ?draws = "[\<lparr>avg_temp = 25, avg_humidity = 60, test_data = ''25.00,60.00''\<rparr>,
                \<lparr>avg_temp = 27, avg_humidity = 55, test_data = ''27.00,55.00''\<rparr>]"
  let ?ok = "\<lambda>(k::nat) (b::string). Inr (26 + real k) :: exn + real"
  have all: "\<forall>k<length ?draws. \<exists>p. ?ok k (test_data (?draws ! k)) = (Inr p :: exn + real)"
    by simp
  from one_invocation_per_sample [of ?ok "''sensor-endpoint''" "[]" ?draws] all
  have "length (fst (test_batch_predictions ?ok ''sensor-endpoint'' ?draws)) = length ?draws"
    by blast
  moreover
  from one_invocation_per_sample [of "\<lambda>k b. Inl (ClientError ''ModelError'')"
      "''sensor-endpoint''" test_samples]
  have "fst (snd (test_endpoint_predictions (\<lambda>k b. Inl (ClientError ''ModelError''))
      ''sensor-endpoint'' test_samples)) =
     map (\<lambda>s. InvokeEndpoint ''sensor-endpoint'' (sample_csv s)) test_samples"
    by blast
  ultimately show ?thesis
    by simp
qed

theorem failed_sample_has_no_entry_counterexample:
  "length (fst (test_batch_predictions
      (\<lambda>k b. if k = 1 then Inl (ClientError ''ModelError'') else Inr 26) ''sensor-endpoint''
      [\<lparr>avg_temp = 25, avg_humidity = 60, test_data = ''25.00,60.00''\<rparr>,
       \<lparr>avg_temp = 27, avg_humidity = 55, test_data = ''27.00,55.00''\<rparr>,
       \<lparr>avg_temp = 24, avg_humidity = 62, test_data = ''24.00,62.00''\<rparr>])) = 2 \<and>
   map sample_no (fst (test_batch_predictions
      (\<lambda>k b. if k = 1 then Inl (ClientError ''ModelError'') else Inr 26) ''sensor-endpoint''
      [\<lparr>avg_temp = 25, avg_humidity = 60, test_data = ''25.00,60.00''\<rparr>,
       \<lparr>avg_temp = 27, avg_humidity = 55, test_data = ''27.00,55.00''\<rparr>,
       \<lparr>avg_temp = 24, avg_humidity = 62, test_data = ''24.00,62.00''\<rparr>])) = [1, 3] \<and>
   length (fst (snd (test_batch_predictions
      (\<lambda>k b. if k = 1 then Inl (ClientError ''ModelError'') else Inr 26) ''sensor-endpoint''
      [\<lparr>avg_temp = 25, avg_humidity = 60, test_data = ''25.00,60.00''\<rparr>,
       \<lparr>avg_temp = 27, avg_humidity = 55, test_data = ''27.00,55.00''\<rparr>,
       \<lparr>avg_temp = 24, avg_humidity = 62, test_data = ''24.00,62.00''\<rparr>]))) = 3 \<and>
   fst (test_endpoint_predictions (\<lambda>k b. Inr 26) ''sensor-endpoint'' test_samples) = ()"
  by (simp add: test_batch_predictions_def test_endpoint_predictions_def)

section \<open>Properties of the cleanup sweep\<close>

lemma contains_self: "contains part (part @ ys)"
proof (cases "part @ ys")
  case Nil
  then show ?thesis by simp
next
  case (Cons a list)
  have "prefix part (part @ ys)"
    by simp
  with Cons show ?thesis
    by simp
qed

lemma contains_append: "contains part (xs @ part @ ys)"
  by (induction xs) (simp_all add: contains_self)

lemma handler_not_found:
  "handler k name w issued (not_found name') =
     \<lparr>sw_world = w, sw_calls = issued, sw_report = [Absent k name], sw_raised = None\<rparr>"
proof -
  have "contains ''does not exist''
      (''An error occurred (ValidationException): '' @ name' @ '' does not exist'')"
    using contains_append [of "''does not exist''"
        "''An error occurred (ValidationException): '' @ name' @ '' ''" "[]"]
    by simp
  then show ?thesis
    by (simp add: handler_def not_found_def)
qed

lemma handler_world [simp]: "sw_world (handler k name w issued e) = w"
  by (cases e) (simp_all add: handler_def)

lemma handler_calls [simp]: "sw_calls (handler k name w issued e) = issued"
  by (cases e) (simp_all add: handler_def)

lemma handler_raised:
  "sw_raised (handler k name w issued e) =
     (case e of ClientError t \<Rightarrow> None | OtherException t \<Rightarrow> Some e)"
  by (cases e) (simp_all add: handler_def)

lemma handler_report_subject:
  "sw_raised (handler k name w issued e) = None \<Longrightarrow>
     map subject (sw_report (handler k name w issued e)) = [(k, name)]"
  by (cases e) (simp_all add: handler_def)

lemma handler_not_deleted [simp]:
  "Deleted k' n' \<notin> set (sw_report (handler k name w issued e))"
  by (cases e) (simp_all add: handler_def)

text \<open>What is there, and what a deletion leaves.\<close>

lemma step_world:
  "sw_world (cleanup_candidate faults w c) = w \<or>
   sw_world (cleanup_candidate faults w c) = remove c w \<and> present w c \<and>
     sw_report (cleanup_candidate faults w c) = [Deleted (fst c) (snd c)] \<and>
     sw_raised (cleanup_candidate faults w c) = None \<and> clear faults c"
proof -
  obtain k n where c: "c = (k, n)"
    by (cases c)
  show ?thesis
    unfolding c
    by (cases k)
      (auto simp: cleanup_endpoint_def cleanup_config_def cleanup_model_def
        cp_describe_endpoint_def cp_delete_endpoint_def cp_delete_endpoint_config_def
        cp_delete_model_def
        split: sum.splits option.splits if_splits)
qed

lemmas step_defs = cleanup_endpoint_def cleanup_config_def cleanup_model_def
  cp_describe_endpoint_def cp_delete_endpoint_def cp_delete_endpoint_config_def
  cp_delete_model_def

lemma step_abort:
  "sw_raised (cleanup_candidate faults w c) = Some e \<Longrightarrow>
     sw_world (cleanup_candidate faults w c) = w \<and> sw_report (cleanup_candidate faults w c) = []"
proof -
  obtain k n where c: "c = (k, n)"
    by (cases c)
  show "sw_raised (cleanup_candidate faults w c) = Some e \<Longrightarrow>
     sw_world (cleanup_candidate faults w c) = w \<and> sw_report (cleanup_candidate faults w c) = []"
    unfolding c
    by (cases k)
      (auto simp: step_defs handler_def split: sum.splits option.splits if_splits exn.splits)
qed

lemma step_deleted:
  "Deleted k n \<in> set (sw_report (cleanup_candidate faults w c)) \<Longrightarrow>
     c = (k, n) \<and> clear faults c \<and> present w c \<and>
     sw_world (cleanup_candidate faults w c) = remove c w \<and>
     sw_raised (cleanup_candidate faults w c) = None"
proof -
  obtain k' n' where c: "c = (k', n')"
    by (cases c)
  show "Deleted k n \<in> set (sw_report (cleanup_candidate faults w c)) \<Longrightarrow>
     c = (k, n) \<and> clear faults c \<and> present w c \<and>
     sw_world (cleanup_candidate faults w c) = remove c w \<and>
     sw_raised (cleanup_candidate faults w c) = None"
    unfolding c
    by (cases k')
      (auto simp: step_defs split: sum.splits option.splits if_splits)
qed

lemma step_absent:
  "clear faults c \<Longrightarrow> \<not> present w c \<Longrightarrow>
     sw_report (cleanup_candidate faults w c) = [Absent (fst c) (snd c)] \<and>
     sw_raised (cleanup_candidate faults w c) = None \<and>
     sw_world (cleanup_candidate faults w c) = w"
proof -
  obtain k n where c: "c = (k, n)"
    by (cases c)
  show "clear faults c \<Longrightarrow> \<not> present w c \<Longrightarrow>
     sw_report (cleanup_candidate faults w c) = [Absent (fst c) (snd c)] \<and>
     sw_raised (cleanup_candidate faults w c) = None \<and>
     sw_world (cleanup_candidate faults w c) = w"
    unfolding c
    by (cases k) (auto simp: step_defs handler_not_found)
qed

lemma step_no_short_circuit:
  "\<forall>call text. faults call \<noteq> Some (OtherException text) \<Longrightarrow>
     sw_raised (cleanup_candidate faults w c) = None \<and>
     map subject (sw_report (cleanup_candidate faults w c)) = [c]"
proof -
  obtain k n where c: "c = (k, n)"
    by (cases c)
  have nf: "not_found n = ClientError (''An error occurred (ValidationException): '' @ n @ '' does not exist'')"
    by (simp add: not_found_def)
  show "\<forall>call text. faults call \<noteq> Some (OtherException text) \<Longrightarrow>
     sw_raised (cleanup_candidate faults w c) = None \<and>
     map subject (sw_report (cleanup_candidate faults w c)) = [c]"
    unfolding c
    by (cases k)
      (auto simp: step_defs handler_def nf
        split: sum.splits option.splits if_splits exn.splits)
qed

lemma present_remove: "present (remove m w) c \<longleftrightarrow> present w c \<and> c \<noteq> m"
proof -
  obtain k n where c: "c = (k, n)"
    by (cases c)
  obtain k' n' where m: "m = (k', n')"
    by (cases m)
  show ?thesis
    unfolding c m by (cases k; cases k') auto
qed

lemma absent_persists:
  "\<not> present w c \<Longrightarrow> \<not> present (sw_world (cleanup_candidate faults w m)) c"
  using step_world [of faults w m] by (auto simp: present_remove)


lemma handler_raised_if:
  "sw_raised (handler k name w issued e) = (if uncaught (Some e) then Some e else None)"
  by (cases e) (simp_all add: handler_def)

lemma not_found_caught [simp]: "\<not> uncaught (Some (not_found name))"
  by (simp add: not_found_def)

lemma endpoint_world:
  "sw_world (cleanup_endpoint faults w n) =
     (if would_delete faults w (Endpoint, n) then remove (Endpoint, n) w else w)"
  by (auto simp: step_defs split: sum.splits option.splits)

lemma config_world:
  "sw_world (cleanup_config faults w n) =
     (if would_delete faults w (EndpointConfig, n) then remove (EndpointConfig, n) w else w)"
  by (auto simp: step_defs split: sum.splits option.splits)

lemma model_world:
  "sw_world (cleanup_model faults w n) =
     (if would_delete faults w (Model, n) then remove (Model, n) w else w)"
  by (auto simp: step_defs split: sum.splits option.splits)

lemma endpoint_raised:
  "sw_raised (cleanup_endpoint faults w n) \<noteq> None \<longleftrightarrow> would_raise faults w (Endpoint, n)"
  by (simp add: step_defs handler_raised_if split: sum.split option.split)
    (use not_found_caught in blast)

lemma config_raised:
  "sw_raised (cleanup_config faults w n) \<noteq> None \<longleftrightarrow> would_raise faults w (EndpointConfig, n)"
  by (simp add: step_defs handler_raised_if split: sum.split option.split)

lemma model_raised:
  "sw_raised (cleanup_model faults w n) \<noteq> None \<longleftrightarrow> would_raise faults w (Model, n)"
  by (simp add: step_defs handler_raised_if split: sum.split option.split)


lemma step_world_if:
  "sw_world (cleanup_candidate faults w c) = (if would_delete faults w c then remove c w else w)"
proof -
  obtain k n where c: "c = (k, n)"
    by (cases c)
  show ?thesis
    unfolding c by (cases k) (simp_all add: endpoint_world config_world model_world)
qed

lemma step_raised_iff:
  "sw_raised (cleanup_candidate faults w c) \<noteq> None \<longleftrightarrow> would_raise faults w c"
proof -
  obtain k n where c: "c = (k, n)"
    by (cases c)
  show ?thesis
    unfolding c by (cases k) (simp_all only: cleanup_candidate.simps endpoint_raised config_raised model_raised)
qed

lemma would_delete_present: "would_delete faults w c \<Longrightarrow> present w c \<and> clear faults c"
proof -
  obtain k n where c: "c = (k, n)"
    by (cases c)
  show "would_delete faults w c \<Longrightarrow> present w c \<and> clear faults c"
    unfolding c by (cases k) auto
qed

lemma remove_changes: "present w c \<Longrightarrow> remove c w \<noteq> w"
proof -
  obtain k n where c: "c = (k, n)"
    by (cases c)
  show "present w c \<Longrightarrow> remove c w \<noteq> w"
    unfolding c
  proof (cases k)
    case Endpoint
    assume "present w (k, n)"
    with Endpoint have "w_endpoints (remove (k, n) w) n \<noteq> w_endpoints w n"
      by auto
    then show "remove (k, n) w \<noteq> w"
      by auto
  next
    case EndpointConfig
    assume "present w (k, n)"
    with EndpointConfig have "w_endpoint_configs (remove (k, n) w) \<noteq> w_endpoint_configs w"
      by auto
    then show "remove (k, n) w \<noteq> w"
      by auto
  next
    case Model
    assume "present w (k, n)"
    with Model have "w_models (remove (k, n) w) \<noteq> w_models w"
      by auto
    then show "remove (k, n) w \<noteq> w"
      by auto
  qed
qed

lemma would_delete_remove:
  "would_delete faults (remove m w) c \<longleftrightarrow> would_delete faults w c \<and> c \<noteq> m"
proof -
  obtain k n where c: "c = (k, n)"
    by (cases c)
  obtain k' n' where m: "m = (k', n')"
    by (cases m)
  show ?thesis
    unfolding c m by (cases k; cases k') auto
qed

lemma would_raise_remove: "would_raise faults (remove m w) c \<Longrightarrow> would_raise faults w c"
proof -
  obtain k n where c: "c = (k, n)"
    by (cases c)
  obtain k' n' where m: "m = (k', n')"
    by (cases m)
  show "would_raise faults (remove m w) c \<Longrightarrow> would_raise faults w c"
    unfolding c m by (cases k; cases k') (auto split: if_splits)
qed

lemma step_deleted_iff:
  "filter is_deleted (sw_report (cleanup_candidate faults w c)) = [] \<longleftrightarrow>
     \<not> would_delete faults w c"
proof
  assume "filter is_deleted (sw_report (cleanup_candidate faults w c)) = []"
  then have "sw_report (cleanup_candidate faults w c) \<noteq> [Deleted (fst c) (snd c)]"
    by auto
  with step_world [of faults w c] have "sw_world (cleanup_candidate faults w c) = w"
    by blast
  then show "\<not> would_delete faults w c"
    using would_delete_present [of faults w c] remove_changes [of w c]
    by (auto simp: step_world_if split: if_splits)
next
  assume n: "\<not> would_delete faults w c"
  show "filter is_deleted (sw_report (cleanup_candidate faults w c)) = []"
  proof (rule ccontr)
    assume "filter is_deleted (sw_report (cleanup_candidate faults w c)) \<noteq> []"
    then obtain ev where ev: "ev \<in> set (sw_report (cleanup_candidate faults w c))"
        and "is_deleted ev"
      by (auto simp: filter_empty_conv)
    from \<open>is_deleted ev\<close> obtain k nm where "ev = Deleted k nm"
      by (cases ev) simp_all
    with ev have "Deleted k nm \<in> set (sw_report (cleanup_candidate faults w c))"
      by simp
    from step_deleted [OF this] have "sw_world (cleanup_candidate faults w c) = remove c w"
        and "present w c"
      by blast+
    with n remove_changes [of w c] show False
      by (simp add: step_world_if)
  qed
qed

lemma settled_iff:
  "settled faults w c \<longleftrightarrow> \<not> would_delete faults w c \<and> \<not> would_raise faults w c"
  using step_raised_iff [of faults w c] would_delete_present [of faults w c]
    remove_changes [of w c]
  by (auto simp: settled_def step_deleted_iff step_world_if)

lemma settled_remove: "settled faults w c \<Longrightarrow> settled faults (remove m w) c"
  using would_raise_remove [of faults m w c]
  by (auto simp: settled_iff would_delete_remove)

lemma settled_after:
  "sw_raised (cleanup_candidate faults w c) = None \<Longrightarrow>
     settled faults (sw_world (cleanup_candidate faults w c)) c"
  using step_raised_iff [of faults w c] would_raise_remove [of faults c w c]
  by (auto simp: settled_iff step_world_if would_delete_remove)

lemma settled_step:
  "settled faults w c \<Longrightarrow> settled faults (sw_world (cleanup_candidate faults w m)) c"
  by (simp add: step_world_if settled_remove)


lemma then_run_world:
  "sw_world (then_run a f) =
     (if sw_raised a = None then sw_world (f (sw_world a)) else sw_world a)"
  by (simp add: then_run_def Let_def split: option.split)

lemma then_run_raised:
  "sw_raised (then_run a f) =
     (if sw_raised a = None then sw_raised (f (sw_world a)) else sw_raised a)"
  by (simp add: then_run_def Let_def split: option.split)

lemma then_run_report:
  "sw_report (then_run a f) =
     (if sw_raised a = None then sw_report a @ sw_report (f (sw_world a)) else sw_report a)"
  by (simp add: then_run_def Let_def split: option.split)

lemma then_run_calls:
  "sw_calls (then_run a f) =
     (if sw_raised a = None then sw_calls a @ sw_calls (f (sw_world a)) else sw_calls a)"
  by (simp add: then_run_def Let_def split: option.split)

lemmas then_run_fields = then_run_world then_run_raised then_run_report then_run_calls

lemma then_run_assoc: "then_run (then_run a f) g = then_run a (\<lambda>w. then_run (f w) g)"
  by (rule sweep.equality) (simp_all add: then_run_fields)

lemma then_run_start:
  "then_run \<lparr>sw_world = w, sw_calls = [], sw_report = [], sw_raised = None\<rparr> f = f w"
  by (rule sweep.equality) (simp_all add: then_run_fields)

lemma for_each_append:
  "for_each body (xs @ ys) = (\<lambda>w. then_run (for_each body xs w) (for_each body ys))"
proof (induction xs)
  case Nil
  show ?case
    by (rule ext) (simp add: then_run_start)
next
  case (Cons a xs)
  show ?case
    by (rule ext) (simp add: Cons then_run_assoc)
qed

lemma for_each_endpoints:
  "for_each (cleanup_candidate faults) (map (Pair Endpoint) names) =
     for_each (cleanup_endpoint faults) names"
proof (induction names)
  case Nil
  show ?case
    by (rule ext) simp
next
  case (Cons a names)
  show ?case
    by (rule ext) (simp add: Cons)
qed

lemma for_each_configs:
  "for_each (cleanup_candidate faults) (map (Pair EndpointConfig) names) =
     for_each (cleanup_config faults) names"
proof (induction names)
  case Nil
  show ?case
    by (rule ext) simp
next
  case (Cons a names)
  show ?case
    by (rule ext) (simp add: Cons)
qed

lemma for_each_models:
  "for_each (cleanup_candidate faults) (map (Pair Model) names) =
     for_each (cleanup_model faults) names"
proof (induction names)
  case Nil
  show ?case
    by (rule ext) simp
next
  case (Cons a names)
  show ?case
    by (rule ext) (simp add: Cons)
qed

lemma cleanup_as_one_loop:
  "cleanup_failed_resources faults eps cfgs mds w =
     for_each (cleanup_candidate faults) (candidates eps cfgs mds) w"
  by (simp add: cleanup_failed_resources_def candidates_def for_each_append
      for_each_endpoints for_each_configs for_each_models then_run_assoc)

lemma settled_through:
  "settled faults w c \<Longrightarrow>
     settled faults (sw_world (for_each (cleanup_candidate faults) cs w)) c"
  by (induction cs arbitrary: w) (simp_all add: then_run_world settled_step)

lemma absent_through:
  "\<not> present w c \<Longrightarrow> \<not> present (sw_world (for_each (cleanup_candidate faults) cs w)) c"
  by (induction cs arbitrary: w) (simp_all add: then_run_world absent_persists)

lemma loop_twice:
  "sw_world (for_each (cleanup_candidate faults) cs
       (sw_world (for_each (cleanup_candidate faults) cs w)))
     = sw_world (for_each (cleanup_candidate faults) cs w) \<and>
   sw_raised (for_each (cleanup_candidate faults) cs
       (sw_world (for_each (cleanup_candidate faults) cs w)))
     = sw_raised (for_each (cleanup_candidate faults) cs w) \<and>
   filter is_deleted (sw_report (for_each (cleanup_candidate faults) cs
       (sw_world (for_each (cleanup_candidate faults) cs w)))) = []"
proof (induction cs arbitrary: w)
  case Nil
  show ?case by simp
next
  case (Cons h t)
  let ?b = "cleanup_candidate faults w h"
  show ?case
  proof (cases "sw_raised ?b")
    case (Some e)
    from step_abort [OF Some] have "sw_world ?b = w" and "sw_report ?b = []"
      by simp_all
    with Some show ?thesis
      by (simp add: then_run_fields)
  next
    case None
    let ?wh = "sw_world ?b"
    let ?w1 = "sw_world (for_each (cleanup_candidate faults) t ?wh)"
    from settled_through [OF settled_after [OF None], of t]
    have s: "settled faults ?w1 h" .
    then have b1: "sw_world (cleanup_candidate faults ?w1 h) = ?w1"
        "sw_raised (cleanup_candidate faults ?w1 h) = None"
        "filter is_deleted (sw_report (cleanup_candidate faults ?w1 h)) = []"
      by (simp_all add: settled_def)
    from None have w1: "sw_world (for_each (cleanup_candidate faults) (h # t) w) = ?w1"
      and r1: "sw_raised (for_each (cleanup_candidate faults) (h # t) w)
        = sw_raised (for_each (cleanup_candidate faults) t ?wh)"
      by (simp_all add: then_run_fields)
    from Cons [of ?wh] b1 show ?thesis
      unfolding w1 r1 by (simp add: then_run_fields)
  qed
qed

lemma loop_deleted_then_absent:
  "Deleted k n \<in> set (sw_report (for_each (cleanup_candidate faults) cs w)) \<Longrightarrow>
     Absent k n \<in> set (sw_report (for_each (cleanup_candidate faults) cs
       (sw_world (for_each (cleanup_candidate faults) cs w))))"
proof (induction cs arbitrary: w)
  case Nil
  then show ?case by simp
next
  case (Cons h t)
  let ?b = "cleanup_candidate faults w h"
  show ?case
  proof (cases "sw_raised ?b")
    case (Some e)
    from step_abort [OF Some] Some Cons.prems show ?thesis
      by (simp add: then_run_fields)
  next
    case None
    let ?wh = "sw_world ?b"
    let ?w1 = "sw_world (for_each (cleanup_candidate faults) t ?wh)"
    from settled_through [OF settled_after [OF None], of t]
    have "settled faults ?w1 h" .
    then have b1: "sw_world (cleanup_candidate faults ?w1 h) = ?w1"
        "sw_raised (cleanup_candidate faults ?w1 h) = None"
      by (simp_all add: settled_def)
    from None have w1: "sw_world (for_each (cleanup_candidate faults) (h # t) w) = ?w1"
      by (simp add: then_run_fields)
    from None Cons.prems consider
        "Deleted k n \<in> set (sw_report ?b)"
      | "Deleted k n \<in> set (sw_report (for_each (cleanup_candidate faults) t ?wh))"
      by (auto simp: then_run_fields)
    then show ?thesis
    proof cases
      case 1
      from step_deleted [OF 1] have h: "h = (k, n)" and "clear faults h"
        and "sw_world ?b = remove h w"
        by blast+
      then have "\<not> present ?wh h"
        by (simp add: present_remove)
      then have "\<not> present ?w1 h"
        by (rule absent_through)
      from step_absent [OF \<open>clear faults h\<close> this] h
      have "sw_report (cleanup_candidate faults ?w1 h) = [Absent k n]"
        by simp
      with b1 show ?thesis
        unfolding w1 by (simp add: then_run_fields)
    next
      case 2
      from Cons.IH [OF 2] b1 show ?thesis
        unfolding w1 by (simp add: then_run_fields)
    qed
  qed
qed

lemma loop_no_short_circuit:
  "\<forall>call text. faults call \<noteq> Some (OtherException text) \<Longrightarrow>
     sw_raised (for_each (cleanup_candidate faults) cs w) = None \<and>
     map subject (sw_report (for_each (cleanup_candidate faults) cs w)) = cs"
  by (induction cs arbitrary: w) (simp_all add: then_run_fields step_no_short_circuit)


lemma deletable_iff:
  "deletable faults w n \<longleftrightarrow>
     faults (DescribeEndpoint n) = None \<and>
     (w_endpoints w n = Some ''Failed'' \<or> w_endpoints w n = Some ''OutOfService'')"
  by (auto simp: deletable_def cp_describe_endpoint_def split: option.splits)

lemma endpoint_calls:
  "sw_calls (cleanup_endpoint faults w n) =
     DescribeEndpoint n # (if deletable faults w n then [DeleteEndpoint n] else [])"
  by (auto simp: deletable_def cleanup_endpoint_def split: sum.splits)

lemma config_calls: "sw_calls (cleanup_config faults w n) = [DeleteEndpointConfig n]"
  by (simp add: cleanup_config_def split: sum.split)

lemma model_calls: "sw_calls (cleanup_model faults w n) = [DeleteModel n]"
  by (simp add: cleanup_model_def split: sum.split)

lemma deletable_after:
  "deletable faults (sw_world (cleanup_endpoint faults w h)) n \<longleftrightarrow>
     deletable faults w n \<and> (n = h \<longrightarrow> \<not> would_delete faults w (Endpoint, h))"
  by (auto simp: endpoint_world deletable_iff)

lemma would_delete_deletable:
  "would_delete faults w (Endpoint, h) \<Longrightarrow> deletable faults w h"
  by (auto simp: deletable_iff)

lemma endpoint_loop_deletes:
  "sw_raised (for_each (cleanup_endpoint faults) eps w) = None \<Longrightarrow>
     DeleteEndpoint n \<in> set (sw_calls (for_each (cleanup_endpoint faults) eps w)) \<longleftrightarrow>
       n \<in> set eps \<and> deletable faults w n"
proof (induction eps arbitrary: w)
  case Nil
  show ?case by simp
next
  case (Cons h t)
  let ?b = "cleanup_endpoint faults w h"
  from Cons.prems have b: "sw_raised ?b = None"
    and t: "sw_raised (for_each (cleanup_endpoint faults) t (sw_world ?b)) = None"
    by (simp_all add: then_run_raised split: if_splits)
  from b have "sw_calls (for_each (cleanup_endpoint faults) (h # t) w) =
      sw_calls ?b @ sw_calls (for_each (cleanup_endpoint faults) t (sw_world ?b))"
    by (simp add: then_run_calls)
  then have "DeleteEndpoint n \<in> set (sw_calls (for_each (cleanup_endpoint faults) (h # t) w))
      \<longleftrightarrow> (n = h \<and> deletable faults w h) \<or>
          (n \<in> set t \<and> deletable faults (sw_world ?b) n)"
    using Cons.IH [OF t] by (auto simp: endpoint_calls)
  also have "\<dots> \<longleftrightarrow> n \<in> set (h # t) \<and> deletable faults w n"
    using would_delete_deletable [of faults w h] by (auto simp: deletable_after)
  finally show ?case .
qed

lemma endpoint_loop_calls:
  "set (sw_calls (for_each (cleanup_endpoint faults) eps w)) \<subseteq>
     DescribeEndpoint ` set eps \<union> DeleteEndpoint ` set eps"
proof (induction eps arbitrary: w)
  case Nil
  show ?case by simp
next
  case (Cons h t)
  from Cons [of "sw_world (cleanup_endpoint faults w h)"] show ?case
    by (auto simp: then_run_calls endpoint_calls)
qed

lemma config_loop_calls:
  "sw_raised (for_each (cleanup_config faults) cfgs w) = None \<Longrightarrow>
     sw_calls (for_each (cleanup_config faults) cfgs w) = map DeleteEndpointConfig cfgs"
  by (induction cfgs arbitrary: w)
    (simp_all add: then_run_raised then_run_calls config_calls split: if_splits)

lemma model_loop_calls:
  "sw_raised (for_each (cleanup_model faults) mds w) = None \<Longrightarrow>
     sw_calls (for_each (cleanup_model faults) mds w) = map DeleteModel mds"
  by (induction mds arbitrary: w)
    (simp_all add: then_run_raised then_run_calls model_calls split: if_splits)

lemma cleanup_calls:
  assumes "sw_raised (cleanup_failed_resources faults eps cfgs mds w) = None"
  shows "sw_raised (for_each (cleanup_endpoint faults) eps w) = None \<and>
     sw_calls (cleanup_failed_resources faults eps cfgs mds w) =
       sw_calls (for_each (cleanup_endpoint faults) eps w) @
       map DeleteEndpointConfig cfgs @ map DeleteModel mds"
proof -
  let ?e = "for_each (cleanup_endpoint faults) eps w"
  let ?c = "for_each (cleanup_config faults) cfgs (sw_world ?e)"
  let ?m = "for_each (cleanup_model faults) mds (sw_world ?c)"
  from assms have e: "sw_raised ?e = None"
    by (simp add: cleanup_failed_resources_def then_run_raised split: if_splits)
  with assms have c: "sw_raised ?c = None"
    by (simp add: cleanup_failed_resources_def then_run_fields split: if_splits)
  with assms e have m: "sw_raised ?m = None"
    by (simp add: cleanup_failed_resources_def then_run_fields split: if_splits)
  from e c have "sw_calls (cleanup_failed_resources faults eps cfgs mds w) =
      sw_calls ?e @ sw_calls ?c @ sw_calls ?m"
    by (simp add: cleanup_failed_resources_def then_run_fields)
  with e config_loop_calls [OF c] model_loop_calls [OF m] show ?thesis
    by simp
qed

text \<open>A pass that lets an exception out, and the sweep that it ends.\<close>

lemma step_subject:
  "sw_raised (cleanup_candidate faults w c) = None \<Longrightarrow>
     map subject (sw_report (cleanup_candidate faults w c)) = [c]"
proof -
  obtain k n where c: "c = (k, n)"
    by (cases c)
  show "sw_raised (cleanup_candidate faults w c) = None \<Longrightarrow>
     map subject (sw_report (cleanup_candidate faults w c)) = [c]"
    unfolding c
    by (cases k)
      (auto simp: step_defs handler_report_subject split: sum.splits option.splits if_splits)
qed

lemma handler_raised_other:
  "sw_raised (handler k name w issued e') = Some e \<Longrightarrow> \<exists>text. e = OtherException text"
  by (cases e') (auto simp: handler_def)

lemma step_raised_other:
  "sw_raised (cleanup_candidate faults w c) = Some e \<Longrightarrow> \<exists>text. e = OtherException text"
proof -
  obtain k n where c: "c = (k, n)"
    by (cases c)
  show "sw_raised (cleanup_candidate faults w c) = Some e \<Longrightarrow> \<exists>text. e = OtherException text"
    unfolding c
    by (cases k)
      (auto simp: cleanup_endpoint_def cleanup_config_def cleanup_model_def
        dest: handler_raised_other split: sum.splits if_splits)
qed

lemma would_raise_other:
  "c \<noteq> m \<Longrightarrow> would_raise faults (remove m w) c = would_raise faults w c"
proof -
  obtain k n where c: "c = (k, n)"
    by (cases c)
  obtain k' n' where m: "m = (k', n')"
    by (cases m)
  show "c \<noteq> m \<Longrightarrow> would_raise faults (remove m w) c = would_raise faults w c"
    unfolding c m by (cases k; cases k') auto
qed

lemma endpoint_raised_value:
  "sw_raised (cleanup_endpoint faults w n) =
     (if uncaught (faults (DescribeEndpoint n)) then faults (DescribeEndpoint n)
      else if faults (DescribeEndpoint n) = None \<and>
        (w_endpoints w n = Some ''Failed'' \<or> w_endpoints w n = Some ''OutOfService'') \<and>
        uncaught (faults (DeleteEndpoint n))
      then faults (DeleteEndpoint n) else None)"
  by (simp add: step_defs handler_raised_if split: sum.split option.split)
    (use not_found_caught in blast)

lemma config_raised_value:
  "sw_raised (cleanup_config faults w n) =
     (if uncaught (faults (DeleteEndpointConfig n)) then faults (DeleteEndpointConfig n)
      else None)"
  by (simp add: step_defs handler_raised_if split: sum.split option.split)

lemma model_raised_value:
  "sw_raised (cleanup_model faults w n) =
     (if uncaught (faults (DeleteModel n)) then faults (DeleteModel n) else None)"
  by (simp add: step_defs handler_raised_if split: sum.split option.split)

lemma step_raised_last:
  "sw_raised (cleanup_candidate faults w c) = Some e \<Longrightarrow>
     sw_calls (cleanup_candidate faults w c) \<noteq> [] \<and>
     faults (last (sw_calls (cleanup_candidate faults w c))) = Some e"
proof -
  obtain k n where c: "c = (k, n)"
    by (cases c)
  show "sw_raised (cleanup_candidate faults w c) = Some e \<Longrightarrow>
     sw_calls (cleanup_candidate faults w c) \<noteq> [] \<and>
     faults (last (sw_calls (cleanup_candidate faults w c))) = Some e"
    unfolding c
    by (cases k)
      (auto simp: endpoint_raised_value config_raised_value model_raised_value
        endpoint_calls config_calls model_calls deletable_iff split: if_splits)
qed

lemma present_through:
  "present w q \<Longrightarrow> q \<notin> set cs \<Longrightarrow>
     present (sw_world (for_each (cleanup_candidate faults) cs w)) q"
  by (induction cs arbitrary: w) (simp_all add: then_run_world step_world_if present_remove)

lemma loop_before_raise:
  "\<forall>p\<in>set pre. \<not> would_raise faults w p \<Longrightarrow> would_raise faults w c \<Longrightarrow>
     sw_raised (for_each (cleanup_candidate faults) pre w) = None \<and>
     map subject (sw_report (for_each (cleanup_candidate faults) pre w)) = pre \<and>
     would_raise faults (sw_world (for_each (cleanup_candidate faults) pre w)) c"
proof (induction pre arbitrary: w)
  case Nil
  then show ?case by simp
next
  case (Cons h t)
  let ?b = "cleanup_candidate faults w h"
  from Cons.prems have h: "\<not> would_raise faults w h" and ch: "c \<noteq> h"
    by auto
  from h have r: "sw_raised ?b = None"
    using step_raised_iff [of faults w h] by simp
  from Cons.prems have "\<forall>p\<in>set t. \<not> would_raise faults (sw_world ?b) p"
    using would_raise_remove [of faults h w] by (auto simp: step_world_if)
  moreover from Cons.prems(2) ch have "would_raise faults (sw_world ?b) c"
    by (simp add: step_world_if would_raise_other)
  ultimately have "sw_raised (for_each (cleanup_candidate faults) t (sw_world ?b)) = None \<and>
     map subject (sw_report (for_each (cleanup_candidate faults) t (sw_world ?b))) = t \<and>
     would_raise faults (sw_world (for_each (cleanup_candidate faults) t (sw_world ?b))) c"
    by (rule Cons.IH)
  with r step_subject [OF r] show ?case
    by (simp add: then_run_fields)
qed

lemma loop_raises:
  assumes pre: "\<forall>p\<in>set pre. \<not> would_raise faults w p" and c: "would_raise faults w c"
  shows "(\<exists>text. sw_raised (for_each (cleanup_candidate faults) (pre @ c # post) w)
            = Some (OtherException text)) \<and>
     sw_calls (for_each (cleanup_candidate faults) (pre @ c # post) w) \<noteq> [] \<and>
     faults (last (sw_calls (for_each (cleanup_candidate faults) (pre @ c # post) w)))
       = sw_raised (for_each (cleanup_candidate faults) (pre @ c # post) w) \<and>
     map subject (sw_report (for_each (cleanup_candidate faults) (pre @ c # post) w)) = pre \<and>
     for_each (cleanup_candidate faults) (pre @ c # post) w
       = for_each (cleanup_candidate faults) (pre @ [c]) w \<and>
     (\<forall>q\<in>set (c # post) - set pre. present w q \<longrightarrow>
        present (sw_world (for_each (cleanup_candidate faults) (pre @ c # post) w)) q)"
proof -
  let ?P = "for_each (cleanup_candidate faults) pre w"
  let ?b = "cleanup_candidate faults (sw_world ?P) c"
  from loop_before_raise [OF pre c]
  have p: "sw_raised ?P = None" "map subject (sw_report ?P) = pre"
    and c': "would_raise faults (sw_world ?P) c"
    by simp_all
  from c' obtain e where e: "sw_raised ?b = Some e"
    using step_raised_iff [of faults "sw_world ?P" c] by auto
  from step_raised_other [OF e] obtain reason where t: "e = OtherException reason" ..
  from step_abort [OF e] have a: "sw_world ?b = sw_world ?P" "sw_report ?b = []"
    by simp_all
  let ?S = "for_each (cleanup_candidate faults) (pre @ c # post) w"
  from p e have f: "sw_raised ?S = Some e" "sw_report ?S = sw_report ?P"
      "sw_world ?S = sw_world ?P"
    by (simp_all add: for_each_append then_run_fields a)
  from p e have "?S = for_each (cleanup_candidate faults) (pre @ [c]) w"
    by (intro sweep.equality) (simp_all add: for_each_append then_run_fields)
  moreover from f(1) t have "\<exists>text. sw_raised ?S = Some (OtherException text)"
    by simp
  moreover from p e have "sw_calls ?S = sw_calls ?P @ sw_calls ?b"
    by (simp add: for_each_append then_run_fields)
  with f(1) step_raised_last [OF e]
  have "sw_calls ?S \<noteq> [] \<and> faults (last (sw_calls ?S)) = sw_raised ?S"
    by simp
  moreover from f(2) p(2) have "map subject (sw_report ?S) = pre"
    by simp
  moreover have "\<forall>q\<in>set (c # post) - set pre. present w q \<longrightarrow> present (sw_world ?S) q"
    unfolding f(3) by (simp add: present_through)
  ultimately show ?thesis
    by blast
qed

lemma would_raise_endpoint:
  "would_raise faults w (Endpoint, n) \<longleftrightarrow>
     (\<exists>text. faults (DescribeEndpoint n) = Some (OtherException text)) \<or>
     faults (DescribeEndpoint n) = None \<and>
     (w_endpoints w n = Some ''Failed'' \<or> w_endpoints w n = Some ''OutOfService'') \<and>
     (\<exists>text. faults (DeleteEndpoint n) = Some (OtherException text))"
  by (auto elim: uncaught.elims)

lemma would_raise_config:
  "would_raise faults w (EndpointConfig, n) \<longleftrightarrow>
     (\<exists>text. faults (DeleteEndpointConfig n) = Some (OtherException text))"
  by (auto elim: uncaught.elims)

lemma would_raise_model:
  "would_raise faults w (Model, n) \<longleftrightarrow>
     (\<exists>text. faults (DeleteModel n) = Some (OtherException text))"
  by (auto elim: uncaught.elims)

section \<open>What the cleanup sweep deletes\<close>

text \<open>
  C5, as the code has it. In a sweep that no exception ends, the delete call for an endpoint
  is issued exactly when the endpoint is a candidate and its describe call returned the
  status \<^verbatim>\<open>Failed\<close> or \<^verbatim>\<open>OutOfService\<close> (line 35); an endpoint in any other status is
  left in place. For the endpoint configurations and the models the sweep issues the delete
  calls, one for each candidate in order, and nothing else: no status is queried for them.
\<close>

theorem cleanup_deletes:
  "(sw_raised (cleanup_failed_resources faults eps cfgs mds w) = None \<longrightarrow>
      (DeleteEndpoint n \<in> set (sw_calls (cleanup_failed_resources faults eps cfgs mds w)) \<longleftrightarrow>
         n \<in> set eps \<and> deletable faults w n) \<and>
      (\<exists>endpoint_calls.
         sw_calls (cleanup_failed_resources faults eps cfgs mds w) =
           endpoint_calls @ map DeleteEndpointConfig cfgs @ map DeleteModel mds \<and>
         set endpoint_calls \<subseteq> DescribeEndpoint ` set eps \<union> DeleteEndpoint ` set eps)) \<and>
   (deletable faults w n \<longleftrightarrow>
      faults (DescribeEndpoint n) = None \<and>
      (w_endpoints w n = Some ''Failed'' \<or> w_endpoints w n = Some ''OutOfService''))"
proof (intro conjI impI)
  assume ok: "sw_raised (cleanup_failed_resources faults eps cfgs mds w) = None"
  from cleanup_calls [OF ok]
  have e: "sw_raised (for_each (cleanup_endpoint faults) eps w) = None"
    and c: "sw_calls (cleanup_failed_resources faults eps cfgs mds w) =
       sw_calls (for_each (cleanup_endpoint faults) eps w) @
       map DeleteEndpointConfig cfgs @ map DeleteModel mds"
    by simp_all
  from endpoint_loop_deletes [OF e, of n]
  show "DeleteEndpoint n \<in> set (sw_calls (cleanup_failed_resources faults eps cfgs mds w)) \<longleftrightarrow>
         n \<in> set eps \<and> deletable faults w n"
    unfolding c by auto
  from c endpoint_loop_calls [of faults eps w]
  show "\<exists>endpoint_calls.
         sw_calls (cleanup_failed_resources faults eps cfgs mds w) =
           endpoint_calls @ map DeleteEndpointConfig cfgs @ map DeleteModel mds \<and>
         set endpoint_calls \<subseteq> DescribeEndpoint ` set eps \<union> DeleteEndpoint ` set eps"
    by blast
next
  show "deletable faults w n \<longleftrightarrow>
      faults (DescribeEndpoint n) = None \<and>
      (w_endpoints w n = Some ''Failed'' \<or> w_endpoints w n = Some ''OutOfService'')"
    by (rule deletable_iff)
qed

theorem cleanup_deletes_witness:
  "sw_raised (cleanup_failed_resources (\<lambda>call. None) [''ep-failed'', ''ep-live''] [''cfg'']
      [''md'']
      \<lparr>w_endpoints = [''ep-failed'' \<mapsto> ''Failed'', ''ep-live'' \<mapsto> ''InService''],
       w_endpoint_configs = {''cfg''}, w_models = {''md''}\<rparr>) = None \<and>
   DeleteEndpoint ''ep-failed'' \<in> set (sw_calls (cleanup_failed_resources (\<lambda>call. None)
      [''ep-failed'', ''ep-live''] [''cfg''] [''md'']
      \<lparr>w_endpoints = [''ep-failed'' \<mapsto> ''Failed'', ''ep-live'' \<mapsto> ''InService''],
       w_endpoint_configs = {''cfg''}, w_models = {''md''}\<rparr>)) \<and>
   DeleteEndpoint ''ep-live'' \<notin> set (sw_calls (cleanup_failed_resources (\<lambda>call. None)
      [''ep-failed'', ''ep-live''] [''cfg''] [''md'']
      \<lparr>w_endpoints = [''ep-failed'' \<mapsto> ''Failed'', ''ep-live'' \<mapsto> ''InService''],
       w_endpoint_configs = {''cfg''}, w_models = {''md''}\<rparr>))"
proof -
  let ?w = "\<lparr>w_endpoints = [''ep-failed'' \<mapsto> ''Failed'', ''ep-live'' \<mapsto> ''InService''],
       w_endpoint_configs = {''cfg''}, w_models = {''md''}\<rparr>"
  let ?f = "\<lambda>call::api_call. None :: exn option"
  let ?eps = "[''ep-failed'', ''ep-live'']"
  have ok: "sw_raised (cleanup_failed_resources ?f ?eps [''cfg''] [''md''] ?w) = None"
    using loop_no_short_circuit [of ?f "candidates ?eps [''cfg''] [''md'']" ?w]
    by (simp add: cleanup_as_one_loop)
  have a: "''ep-failed'' \<in> set ?eps \<and> ?f (DescribeEndpoint ''ep-failed'') = None \<and>
      (w_endpoints ?w ''ep-failed'' = Some ''Failed'' \<or>
       w_endpoints ?w ''ep-failed'' = Some ''OutOfService'')"
    by simp
  have b: "\<not> (w_endpoints ?w ''ep-live'' = Some ''Failed'' \<or>
       w_endpoints ?w ''ep-live'' = Some ''OutOfService'')"
    by simp
  from cleanup_deletes [of ?f ?eps "[''cfg'']" "[''md'']" ?w "''ep-failed''"] ok a
  have "DeleteEndpoint ''ep-failed''
      \<in> set (sw_calls (cleanup_failed_resources ?f ?eps [''cfg''] [''md''] ?w))"
    by blast
  moreover
  from cleanup_deletes [of ?f ?eps "[''cfg'']" "[''md'']" ?w "''ep-live''"] ok b
  have "DeleteEndpoint ''ep-live''
      \<notin> set (sw_calls (cleanup_failed_resources ?f ?eps [''cfg''] [''md''] ?w))"
    by blast
  ultimately show ?thesis
    using ok by simp
qed

theorem out_of_service_deleted_counterexample:
  "sw_calls (cleanup_failed_resources (\<lambda>call. None) [''ep''] [] []
      \<lparr>w_endpoints = [''ep'' \<mapsto> ''OutOfService''], w_endpoint_configs = {},
       w_models = {}\<rparr>) = [DescribeEndpoint ''ep'', DeleteEndpoint ''ep''] \<and>
   w_endpoints (sw_world (cleanup_failed_resources (\<lambda>call. None) [''ep''] [] []
      \<lparr>w_endpoints = [''ep'' \<mapsto> ''OutOfService''], w_endpoint_configs = {},
       w_models = {}\<rparr>)) ''ep'' = None"
  by (simp add: cleanup_failed_resources_def then_run_fields endpoint_calls endpoint_world
      deletable_iff)

section \<open>Sweeping twice\<close>

text \<open>
  C6, as the code has it. On a control plane whose calls fail or go through in the same
  way each time, a second sweep over the same candidates leaves the control plane as the
  first sweep left it and deletes nothing; for every candidate that the first sweep deleted,
  the second sweep gets ``does not exist'' and prints the line that says so. Within a sweep,
  an error that the service reports for a candidate (a \<^verbatim>\<open>ClientError\<close>) is printed and
  the sweep goes on: when no call raises anything else, no exception ends the sweep and
  there is one printed entry for every candidate, in the order endpoints, configurations,
  models. An exception of any other class is not caught and ends the sweep: at the first
  candidate, in that order, for which a call raises one, that exception gets out of the
  function, the call that raised it is the last call of the sweep, the printed entries are
  those of the candidates before it, and neither that candidate nor any candidate after it
  is deleted. A call made for a candidate raises such an exception when its describe or
  delete call does (the delete call of an endpoint is reached only when the describe call
  returned \<^verbatim>\<open>Failed\<close> or \<^verbatim>\<open>OutOfService\<close>).
\<close>

theorem sweep_twice:
  "sw_world (cleanup_failed_resources faults eps cfgs mds
       (sw_world (cleanup_failed_resources faults eps cfgs mds w)))
     = sw_world (cleanup_failed_resources faults eps cfgs mds w) \<and>
   filter is_deleted (sw_report (cleanup_failed_resources faults eps cfgs mds
       (sw_world (cleanup_failed_resources faults eps cfgs mds w)))) = [] \<and>
   (Deleted k n \<in> set (sw_report (cleanup_failed_resources faults eps cfgs mds w)) \<longrightarrow>
      Absent k n \<in> set (sw_report (cleanup_failed_resources faults eps cfgs mds
        (sw_world (cleanup_failed_resources faults eps cfgs mds w))))) \<and>
   ((\<forall>call text. faults call \<noteq> Some (OtherException text)) \<longrightarrow>
      sw_raised (cleanup_failed_resources faults eps cfgs mds w) = None \<and>
      map subject (sw_report (cleanup_failed_resources faults eps cfgs mds w))
        = candidates eps cfgs mds) \<and>
   (candidates eps cfgs mds = pre @ c # post \<and>
    (\<forall>p\<in>set pre. \<not> would_raise faults w p) \<and> would_raise faults w c \<longrightarrow>
      (\<exists>text. sw_raised (cleanup_failed_resources faults eps cfgs mds w)
         = Some (OtherException text)) \<and>
      sw_calls (cleanup_failed_resources faults eps cfgs mds w) \<noteq> [] \<and>
      faults (last (sw_calls (cleanup_failed_resources faults eps cfgs mds w)))
        = sw_raised (cleanup_failed_resources faults eps cfgs mds w) \<and>
      map subject (sw_report (cleanup_failed_resources faults eps cfgs mds w)) = pre \<and>
      cleanup_failed_resources faults eps cfgs mds w
        = for_each (cleanup_candidate faults) (pre @ [c]) w \<and>
      (\<forall>q\<in>set (c # post) - set pre. present w q \<longrightarrow>
         present (sw_world (cleanup_failed_resources faults eps cfgs mds w)) q)) \<and>
   (would_raise faults w (Endpoint, name) \<longleftrightarrow>
      (\<exists>text. faults (DescribeEndpoint name) = Some (OtherException text)) \<or>
      faults (DescribeEndpoint name) = None \<and>
      (w_endpoints w name = Some ''Failed'' \<or> w_endpoints w name = Some ''OutOfService'') \<and>
      (\<exists>text. faults (DeleteEndpoint name) = Some (OtherException text))) \<and>
   (would_raise faults w (EndpointConfig, name) \<longleftrightarrow>
      (\<exists>text. faults (DeleteEndpointConfig name) = Some (OtherException text))) \<and>
   (would_raise faults w (Model, name) \<longleftrightarrow>
      (\<exists>text. faults (DeleteModel name) = Some (OtherException text)))"
proof -
  let ?cs = "candidates eps cfgs mds"
  let ?S = "for_each (cleanup_candidate faults) ?cs w"
  have twice: "sw_world (for_each (cleanup_candidate faults) ?cs (sw_world ?S)) = sw_world ?S \<and>
     filter is_deleted (sw_report (for_each (cleanup_candidate faults) ?cs (sw_world ?S))) = [] \<and>
     (Deleted k n \<in> set (sw_report ?S) \<longrightarrow>
        Absent k n \<in> set (sw_report (for_each (cleanup_candidate faults) ?cs (sw_world ?S)))) \<and>
     ((\<forall>call text. faults call \<noteq> Some (OtherException text)) \<longrightarrow>
        sw_raised ?S = None \<and> map subject (sw_report ?S) = ?cs)"
    using loop_twice [of faults ?cs w] loop_deleted_then_absent [of k n faults ?cs w]
      loop_no_short_circuit [of faults ?cs w]
    by blast
  have ends: "(\<exists>text. sw_raised ?S = Some (OtherException text)) \<and>
      sw_calls ?S \<noteq> [] \<and> faults (last (sw_calls ?S)) = sw_raised ?S \<and>
      map subject (sw_report ?S) = pre \<and>
      ?S = for_each (cleanup_candidate faults) (pre @ [c]) w \<and>
      (\<forall>q\<in>set (c # post) - set pre. present w q \<longrightarrow> present (sw_world ?S) q)"
    if "?cs = pre @ c # post \<and> (\<forall>p\<in>set pre. \<not> would_raise faults w p) \<and>
      would_raise faults w c"
  proof -
    from that have eq: "?cs = pre @ c # post" and p: "\<forall>p\<in>set pre. \<not> would_raise faults w p"
      and c: "would_raise faults w c"
      by blast+
    from loop_raises [OF p c, of post] show ?thesis
      unfolding eq .
  qed
  from twice ends show ?thesis
    unfolding cleanup_as_one_loop
    using would_raise_endpoint [of faults w name] would_raise_config [of faults w name]
      would_raise_model [of faults w name]
    by blast
qed

theorem sweep_twice_witness:
  "Deleted Endpoint ''ep'' \<in> set (sw_report (cleanup_failed_resources (\<lambda>call. None)
      [''ep''] [''cfg''] [''md'']
      \<lparr>w_endpoints = [''ep'' \<mapsto> ''Failed''], w_endpoint_configs = {''cfg''},
       w_models = {}\<rparr>)) \<and>
   Absent Endpoint ''ep'' \<in> set (sw_report (cleanup_failed_resources (\<lambda>call. None)
      [''ep''] [''cfg''] [''md'']
      (sw_world (cleanup_failed_resources (\<lambda>call. None) [''ep''] [''cfg''] [''md'']
         \<lparr>w_endpoints = [''ep'' \<mapsto> ''Failed''], w_endpoint_configs = {''cfg''},
          w_models = {}\<rparr>)))) \<and>
   map subject (sw_report (cleanup_failed_resources (\<lambda>call. None) [''ep''] [''cfg''] [''md'']
      \<lparr>w_endpoints = [''ep'' \<mapsto> ''Failed''], w_endpoint_configs = {''cfg''},
       w_models = {}\<rparr>))
     = [(Endpoint, ''ep''), (EndpointConfig, ''cfg''), (Model, ''md'')] \<and>
   sw_raised (cleanup_failed_resources
      (\<lambda>call. if call = DeleteEndpointConfig ''cfg''
         then Some (OtherException ''Read timed out'') else None)
      [''ep''] [''cfg''] [''md'']
      \<lparr>w_endpoints = [''ep'' \<mapsto> ''Failed''], w_endpoint_configs = {''cfg''},
       w_models = {''md''}\<rparr>) = Some (OtherException ''Read timed out'') \<and>
   last (sw_calls (cleanup_failed_resources
      (\<lambda>call. if call = DeleteEndpointConfig ''cfg''
         then Some (OtherException ''Read timed out'') else None)
      [''ep''] [''cfg''] [''md'']
      \<lparr>w_endpoints = [''ep'' \<mapsto> ''Failed''], w_endpoint_configs = {''cfg''},
       w_models = {''md''}\<rparr>)) = DeleteEndpointConfig ''cfg'' \<and>
   map subject (sw_report (cleanup_failed_resources
      (\<lambda>call. if call = DeleteEndpointConfig ''cfg''
         then Some (OtherException ''Read timed out'') else None)
      [''ep''] [''cfg''] [''md'']
      \<lparr>w_endpoints = [''ep'' \<mapsto> ''Failed''], w_endpoint_configs = {''cfg''},
       w_models = {''md''}\<rparr>)) = [(Endpoint, ''ep'')] \<and>
   ''cfg'' \<in> w_endpoint_configs (sw_world (cleanup_failed_resources
      (\<lambda>call. if call = DeleteEndpointConfig ''cfg''
         then Some (OtherException ''Read timed out'') else None)
      [''ep''] [''cfg''] [''md'']
      \<lparr>w_endpoints = [''ep'' \<mapsto> ''Failed''], w_endpoint_configs = {''cfg''},
       w_models = {''md''}\<rparr>)) \<and>
   ''md'' \<in> w_models (sw_world (cleanup_failed_resources
      (\<lambda>call. if call = DeleteEndpointConfig ''cfg''
         then Some (OtherException ''Read timed out'') else None)
      [''ep''] [''cfg''] [''md'']
      \<lparr>w_endpoints = [''ep'' \<mapsto> ''Failed''], w_endpoint_configs = {''cfg''},
       w_models = {''md''}\<rparr>))"
proof -
  let ?w = "\<lparr>w_endpoints = [''ep'' \<mapsto> ''Failed''], w_endpoint_configs = {''cfg''},
       w_models = {}\<rparr>"
  let ?f = "\<lambda>call::api_call. None :: exn option"
  have quiet: "\<forall>call text. ?f call \<noteq> Some (OtherException text)"
    by simp
  have "sw_report (cleanup_endpoint ?f ?w ''ep'') = [Deleted Endpoint ''ep'']"
    by (simp add: step_defs)
  moreover have "sw_raised (cleanup_endpoint ?f ?w ''ep'') = None"
    by (simp add: step_defs)
  ultimately
  have del: "Deleted Endpoint ''ep''
      \<in> set (sw_report (cleanup_failed_resources ?f [''ep''] [''cfg''] [''md''] ?w))"
    by (simp add: cleanup_failed_resources_def then_run_fields)
  from sweep_twice [of ?f "[''ep'']" "[''cfg'']" "[''md'']" ?w Endpoint "''ep''"] del quiet
  have first: "Absent Endpoint ''ep'' \<in> set (sw_report (cleanup_failed_resources ?f
      [''ep''] [''cfg''] [''md'']
      (sw_world (cleanup_failed_resources ?f [''ep''] [''cfg''] [''md''] ?w))))"
    "map subject (sw_report (cleanup_failed_resources ?f [''ep''] [''cfg''] [''md''] ?w))
      = candidates [''ep''] [''cfg''] [''md'']"
    by blast+
  let ?v = "\<lparr>w_endpoints = [''ep'' \<mapsto> ''Failed''], w_endpoint_configs = {''cfg''},
       w_models = {''md''}\<rparr>"
  let ?g = "\<lambda>call. if call = DeleteEndpointConfig ''cfg''
         then Some (OtherException ''Read timed out'') else None"
  let ?T = "cleanup_failed_resources ?g [''ep''] [''cfg''] [''md''] ?v"
  have h: "candidates [''ep''] [''cfg''] [''md'']
        = [(Endpoint, ''ep'')] @ (EndpointConfig, ''cfg'') # [(Model, ''md'')] \<and>
      (\<forall>p\<in>set [(Endpoint, ''ep'')]. \<not> would_raise ?g ?v p) \<and>
      would_raise ?g ?v (EndpointConfig, ''cfg'')"
    by (simp add: candidates_def)
  from sweep_twice [of ?g "[''ep'']" "[''cfg'']" "[''md'']" ?v _ _ "[(Endpoint, ''ep'')]"
      "(EndpointConfig, ''cfg'')" "[(Model, ''md'')]"] h
  have ends: "sw_calls ?T \<noteq> []" "?g (last (sw_calls ?T)) = sw_raised ?T"
    "\<exists>text. sw_raised ?T = Some (OtherException text)"
    "map subject (sw_report ?T) = [(Endpoint, ''ep'')]"
    "\<forall>q\<in>set ((EndpointConfig, ''cfg'') # [(Model, ''md'')]) - set [(Endpoint, ''ep'')].
       present ?v q \<longrightarrow> present (sw_world ?T) q"
    by blast+
  from ends(2,3) have "last (sw_calls ?T) = DeleteEndpointConfig ''cfg''"
    and "sw_raised ?T = Some (OtherException ''Read timed out'')"
    by (auto split: if_splits)
  moreover from ends(5) have "''cfg'' \<in> w_endpoint_configs (sw_world ?T)"
    and "''md'' \<in> w_models (sw_world ?T)"
    by simp_all
  ultimately show ?thesis
    using del first ends(4) by (simp add: candidates_def)
qed

theorem uncaught_exception_ends_sweep_counterexample:
  "sw_raised (cleanup_failed_resources
      (\<lambda>call. if call = DeleteEndpoint ''ep'' then Some (OtherException ''Read timed out'')
         else None)
      [''ep''] [''cfg''] [''md'']
      \<lparr>w_endpoints = [''ep'' \<mapsto> ''Failed''], w_endpoint_configs = {''cfg''},
       w_models = {''md''}\<rparr>) = Some (OtherException ''Read timed out'') \<and>
   sw_calls (cleanup_failed_resources
      (\<lambda>call. if call = DeleteEndpoint ''ep'' then Some (OtherException ''Read timed out'')
         else None)
      [''ep''] [''cfg''] [''md'']
      \<lparr>w_endpoints = [''ep'' \<mapsto> ''Failed''], w_endpoint_configs = {''cfg''},
       w_models = {''md''}\<rparr>) = [DescribeEndpoint ''ep'', DeleteEndpoint ''ep''] \<and>
   sw_report (cleanup_failed_resources
      (\<lambda>call. if call = DeleteEndpoint ''ep'' then Some (OtherException ''Read timed out'')
         else None)
      [''ep''] [''cfg''] [''md'']
      \<lparr>w_endpoints = [''ep'' \<mapsto> ''Failed''], w_endpoint_configs = {''cfg''},
       w_models = {''md''}\<rparr>) = [] \<and>
   ''cfg'' \<in> w_endpoint_configs (sw_world (cleanup_failed_resources
      (\<lambda>call. if call = DeleteEndpoint ''ep'' then Some (OtherException ''Read timed out'')
         else None)
      [''ep''] [''cfg''] [''md'']
      \<lparr>w_endpoints = [''ep'' \<mapsto> ''Failed''], w_endpoint_configs = {''cfg''},
       w_models = {''md''}\<rparr>))"
proof -
  let ?w = "\<lparr>w_endpoints = [''ep'' \<mapsto> ''Failed''], w_endpoint_configs = {''cfg''},
       w_models = {''md''}\<rparr>"
  let ?f = "\<lambda>call. if call = DeleteEndpoint ''ep'' then Some (OtherException ''Read timed out'')
         else None"
  have "cleanup_endpoint ?f ?w ''ep'' =
      \<lparr>sw_world = ?w, sw_calls = [DescribeEndpoint ''ep'', DeleteEndpoint ''ep''],
       sw_report = [], sw_raised = Some (OtherException ''Read timed out'')\<rparr>"
    by (simp add: step_defs handler_def)
  then show ?thesis
    by (simp add: cleanup_failed_resources_def then_run_fields)
qed


end
